theory Spec2Isabelle
  imports Complex_Main
begin

section \<open>Saving and loading models (notebook Part 6)\<close>

subsection \<open>Tensors, layers, models\<close>

text \<open>
  A parameter tensor has a shape (\<^verbatim>\<open>torch.Size\<close>, a list of Python ints) and a payload, its
  numbers, which the notebooks never look into: the payload type is left open.
\<close>

record 'a tensor =
  shape :: "int list"
  payload :: "'a"

text \<open>An \<^verbatim>\<open>OrderedDict\<close> from parameter names to tensors.\<close>

type_synonym 'a odict = "(string \<times> 'a tensor) list"

text \<open>\<^verbatim>\<open>nn.Linear\<close>: the two sizes the notebook reads or prints, and its two parameters.\<close>

record 'a linear =
  in_features :: int
  out_features :: int
  weight :: "'a tensor"
  bias :: "'a tensor"

text \<open>
  \<^verbatim>\<open>fc_model.Network\<close> as the notebook prints it: a \<^verbatim>\<open>ModuleList\<close> of hidden layers and an
  output layer (the field \<^verbatim>\<open>output\<close>, a reserved word here; the dropout module has no
  parameter).
\<close>

record 'a network =
  hidden_layers :: "'a linear list"
  output_layer :: "'a linear"

text \<open>
  The values the notebook puts into a dictionary handed to \<^verbatim>\<open>torch.save\<close>: an int, a list of
  ints, a tensor (the entries of a bare state dict) or a whole state dict.
\<close>

datatype 'a pyval =
    IntV int
  | IntListV "int list"
  | TensorV "'a tensor"
  | StateDictV "'a odict"

type_synonym 'a pydict = "(string \<times> 'a pyval) list"

text \<open>What the framework reports when a restore fails, one entry per line of its message.\<close>

datatype load_msg =
    MissingKey string
  | UnexpectedKey string
  | SizeMismatch string "int list" "int list"

datatype error =
    FileNotFoundError string
  | KeyError string
  | TypeError
  | RuntimeError "load_msg list"

text \<open>
  The calls into the framework and into \<^verbatim>\<open>fc_model\<close>, logged with their arguments in the
  order in which they are made. A call is logged when it is entered, so a call that raises
  is in the log too.
\<close>

datatype 'a event =
    EvStateDict "'a network"
  | EvSave "'a pydict" string
  | EvLoad string
  | EvNetwork "'a pyval" "'a pyval" "'a pyval"
  | EvLoadStateDict "'a network" "'a pyval"

text \<open>The world a cell runs in: the files written by \<^verbatim>\<open>torch.save\<close>, and the call log.\<close>

record 'a world =
  files :: "string \<rightharpoonup> 'a pydict"
  trace :: "'a event list"

subsection \<open>The parts that are not in the notebook\<close>

text \<open>
  Modelled from the spec: the framework's names for the layers of a \<^verbatim>\<open>ModuleList\<close>, which the
  spec only calls "layer name". The notebook prints them: \<^verbatim>\<open>hidden_layers.0\<close>,
  \<^verbatim>\<open>hidden_layers.1\<close>, ..., the index written as Python's \<^verbatim>\<open>str\<close> writes it.
\<close>

definition digit :: "nat \<Rightarrow> char" where
  "digit n = char_of (48 + n)"

fun show_nat :: "nat \<Rightarrow> string" where
  "show_nat n = (if n < 10 then [digit n] else show_nat (n div 10) @ [digit (n mod 10)])"

declare show_nat.simps [simp del]

definition hidden_name :: "nat \<Rightarrow> string" where
  "hidden_name k = ''hidden_layers.'' @ show_nat k"

text \<open>
  Modelled from the spec: \<^verbatim>\<open>nn.Linear(n_in, n_out)\<close>, whose code is the framework's. The
  notebook's error output shows the shapes: a weight of shape \<open>[n_out, n_in]\<close> and a bias of
  shape \<open>[n_out]\<close>. The initial numbers are the framework's random initialisation, here
  any function \<open>init\<close> of the parameter's name.
\<close>

definition Linear :: "(string \<Rightarrow> 'a) \<Rightarrow> string \<Rightarrow> int \<Rightarrow> int \<Rightarrow> 'a linear" where
  "Linear init name n_in n_out =
     \<lparr>in_features = n_in, out_features = n_out,
      weight = \<lparr>shape = [n_out, n_in], payload = init (name @ ''.weight'')\<rparr>,
      bias = \<lparr>shape = [n_out], payload = init (name @ ''.bias'')\<rparr>\<rparr>"

text \<open>
  Modelled from the spec: \<^verbatim>\<open>fc_model.Network(input_size, output_size, hidden_layers)\<close>, whose
  file \<^verbatim>\<open>fc_model.py\<close> is missing. The spec has it "construct an object from three
  configuration values" and names no failure of the construction; the printed models show
  the object: hidden layer \<open>k\<close> maps the width before it (the input size for \<open>k = 0\<close>) to
  the \<open>k\<close>-th hidden width, and the output layer maps the last width to the output size.
\<close>

fun hidden_stack :: "(string \<Rightarrow> 'a) \<Rightarrow> nat \<Rightarrow> int \<Rightarrow> int list \<Rightarrow> 'a linear list" where
  "hidden_stack init k n_in [] = []"
| "hidden_stack init k n_in (h # hs) =
     Linear init (hidden_name k) n_in h # hidden_stack init (Suc k) h hs"

text \<open>
  Modelled from the spec: the object that \<^verbatim>\<open>fc_model.Network\<close> constructs from its three
  configuration values, with the hidden layers above and the output layer \<^verbatim>\<open>output\<close>.
\<close>

definition Network :: "(string \<Rightarrow> 'a) \<Rightarrow> int \<Rightarrow> int \<Rightarrow> int list \<Rightarrow> 'a network" where
  "Network init input_size output_size hs =
     \<lparr>hidden_layers = hidden_stack init 0 input_size hs,
      output_layer = Linear init ''output'' (last (input_size # hs)) output_size\<rparr>"

text \<open>
  Modelled from the spec: \<^verbatim>\<open>model.state_dict()\<close>, the framework's "parameter-tensor mapping
  (layer name \<rightarrow> weight/bias tensor)", with the keys the notebook prints:
  \<^verbatim>\<open>hidden_layers.0.weight\<close>, \<^verbatim>\<open>hidden_layers.0.bias\<close>, ..., \<^verbatim>\<open>output.weight\<close>, \<^verbatim>\<open>output.bias\<close>.
\<close>

definition layer_params :: "string \<Rightarrow> 'a linear \<Rightarrow> 'a odict" where
  "layer_params name l = [(name @ ''.weight'', weight l), (name @ ''.bias'', bias l)]"

text \<open>
  Modelled from the spec: the entries of \<^verbatim>\<open>state_dict()\<close> for the hidden layers, in layer
  order, layer \<open>k\<close> under the name \<^verbatim>\<open>hidden_layers.k\<close>.
\<close>

fun named_params :: "nat \<Rightarrow> 'a linear list \<Rightarrow> 'a odict" where
  "named_params k [] = []"
| "named_params k (l # ls) = layer_params (hidden_name k) l @ named_params (Suc k) ls"

text \<open>
  Modelled from the spec: \<^verbatim>\<open>model.state_dict()\<close> for the whole model, the hidden layers
  first and the output layer last.
\<close>

definition state_dict :: "'a network \<Rightarrow> 'a odict" where
  "state_dict m = named_params 0 (hidden_layers m) @ layer_params ''output'' (output_layer m)"

text \<open>
  Modelled from the spec: the checks of \<^verbatim>\<open>model.load_state_dict(state_dict)\<close>, the
  framework's restore. It relies "on exact structural equality between saved and
  constructed parameter shapes" and raises its error "when restoring parameters into an
  architecturally different model". As the framework does, it goes through the model's
  own parameters by name and collects a message for every own parameter that the saved
  mapping lacks, for every saved key the model lacks and for every pair of different
  shapes (the notebook's error output lists these). With a message, the restore raises
  \<^verbatim>\<open>RuntimeError\<close>; without one it copies the saved numbers into the parameters.
\<close>

definition load_msgs :: "'a odict \<Rightarrow> 'a odict \<Rightarrow> load_msg list" where
  "load_msgs own sd =
     concat (map (\<lambda>(k, p). case map_of sd k of None \<Rightarrow> [MissingKey k] | Some t \<Rightarrow> []) own)
     @ concat (map (\<lambda>(k, t). case map_of own k of None \<Rightarrow> [UnexpectedKey k] | Some p \<Rightarrow> []) sd)
     @ concat (map (\<lambda>(k, p). case map_of sd k of None \<Rightarrow> []
          | Some t \<Rightarrow> if shape t \<noteq> shape p then [SizeMismatch k (shape t) (shape p)] else []) own)"

text \<open>
  Modelled from the spec: the restore of one parameter, the framework's
  \<^verbatim>\<open>param.copy_(input_param)\<close>. The saved numbers replace the parameter's own.
\<close>

definition copy_param :: "'a tensor \<Rightarrow> 'a tensor option \<Rightarrow> 'a tensor" where
  "copy_param p saved = (case saved of None \<Rightarrow> p | Some t \<Rightarrow> p\<lparr>payload := payload t\<rparr>)"

text \<open>
  Modelled from the spec: the restore of the weight and the bias of one layer, each looked
  up under its name in the saved mapping.
\<close>

definition load_linear :: "string \<Rightarrow> 'a odict \<Rightarrow> 'a linear \<Rightarrow> 'a linear" where
  "load_linear name sd l =
     l\<lparr>weight := copy_param (weight l) (map_of sd (name @ ''.weight'')),
       bias := copy_param (bias l) (map_of sd (name @ ''.bias''))\<rparr>"

text \<open>Modelled from the spec: the restore of the hidden layers, in layer order.\<close>

fun load_layers :: "nat \<Rightarrow> 'a odict \<Rightarrow> 'a linear list \<Rightarrow> 'a linear list" where
  "load_layers k sd [] = []"
| "load_layers k sd (l # ls) = load_linear (hidden_name k) sd l # load_layers (Suc k) sd ls"

text \<open>
  Modelled from the spec: \<^verbatim>\<open>model.load_state_dict(state_dict)\<close> itself. The notebook's
  traceback shows its last step: \<^verbatim>\<open>if len(error_msgs) > 0: raise RuntimeError(...)\<close>.
\<close>

definition load_state_dict :: "'a network \<Rightarrow> 'a odict \<Rightarrow> error + 'a network" where
  "load_state_dict m sd =
     (let error_msgs = load_msgs (state_dict m) sd in
      if error_msgs \<noteq> [] then Inl (RuntimeError error_msgs)
      else Inr (m\<lparr>hidden_layers := load_layers 0 sd (hidden_layers m),
                   output_layer := load_linear ''output'' sd (output_layer m)\<rparr>))"

text \<open>
  Modelled from the spec: \<^verbatim>\<open>torch.save(obj, path)\<close>, the framework's save primitive, which
  writes "a single serialized record" to the file. The file holds the object last saved
  to its path.
\<close>

definition torch_save :: "'a pydict \<Rightarrow> string \<Rightarrow> 'a world \<Rightarrow> 'a world" where
  "torch_save obj path w =
     w\<lparr>files := (files w)(path \<mapsto> obj), trace := trace w @ [EvSave obj path]\<rparr>"

text \<open>
  Modelled from the spec: \<^verbatim>\<open>torch.load(path)\<close>, the framework's load primitive, which gives
  back the object saved to the path. A path that was never written raises
  \<^verbatim>\<open>FileNotFoundError\<close>.
\<close>

definition torch_load :: "string \<Rightarrow> 'a world \<Rightarrow> (error + 'a pydict) \<times> 'a world" where
  "torch_load path w =
     (let w' = w\<lparr>trace := trace w @ [EvLoad path]\<rparr> in
      case files w path of None \<Rightarrow> (Inl (FileNotFoundError path), w') | Some obj \<Rightarrow> (Inr obj, w'))"

text \<open>
  The calls as the notebook makes them: logged, on Python values.
  \<^verbatim>\<open>model.state_dict()\<close>:
\<close>

definition call_state_dict :: "'a network \<Rightarrow> 'a world \<Rightarrow> 'a odict \<times> 'a world" where
  "call_state_dict m w = (state_dict m, w\<lparr>trace := trace w @ [EvStateDict m]\<rparr>)"

text \<open>
  The constructor is called with whatever the dictionary held. The spec's three
  configuration values are an int, an int and a list of ints; on anything else Python
  raises inside the constructor, which is \<^verbatim>\<open>TypeError\<close> here.
\<close>

definition call_Network ::
  "(string \<Rightarrow> 'a) \<Rightarrow> 'a pyval \<Rightarrow> 'a pyval \<Rightarrow> 'a pyval \<Rightarrow> 'a world \<Rightarrow> (error + 'a network) \<times> 'a world" where
  "call_Network init a b c w =
     (let w' = w\<lparr>trace := trace w @ [EvNetwork a b c]\<rparr> in
      case (a, b, c) of
        (IntV input_size, IntV output_size, IntListV hs) \<Rightarrow>
          (Inr (Network init input_size output_size hs), w')
      | _ \<Rightarrow> (Inl TypeError, w'))"

text \<open>
  \<^verbatim>\<open>model.load_state_dict(v)\<close> with whatever the dictionary held under \<^verbatim>\<open>state_dict\<close>; a value
  that is no state dict makes the framework raise, which is \<^verbatim>\<open>TypeError\<close> here.
\<close>

definition call_load_state_dict ::
  "'a network \<Rightarrow> 'a pyval \<Rightarrow> 'a world \<Rightarrow> (error + 'a network) \<times> 'a world" where
  "call_load_state_dict m v w =
     (let w' = w\<lparr>trace := trace w @ [EvLoadStateDict m v]\<rparr> in
      case v of
        StateDictV sd \<Rightarrow> (load_state_dict m sd, w')
      | _ \<Rightarrow> (Inl TypeError, w'))"

subsection \<open>The notebook's cells\<close>

text \<open>Python's \<^verbatim>\<open>d[key]\<close>.\<close>

definition getitem :: "'a pydict \<Rightarrow> string \<Rightarrow> error + 'a pyval" where
  "getitem d key = (case map_of d key of None \<Rightarrow> Inl (KeyError key) | Some v \<Rightarrow> Inr v)"



text \<open>
  \<^verbatim>\<open>
  checkpoint = {'input_size': 784,
                'output_size': 10,
                'hidden_layers': [each.out_features for each in model.hidden_layers],
                'state_dict': model.state_dict()}

  torch.save(checkpoint, 'checkpoint.pth')
  \<close>
\<close>

definition make_checkpoint :: "'a network \<Rightarrow> 'a world \<Rightarrow> 'a pydict \<times> 'a world" where
  "make_checkpoint model w =
     (let widths = map out_features (hidden_layers model);
          (sd, w1) = call_state_dict model w
      in ([(''input_size'', IntV 784),
           (''output_size'', IntV 10),
           (''hidden_layers'', IntListV widths),
           (''state_dict'', StateDictV sd)], w1))"

definition save_checkpoint_cell :: "'a network \<Rightarrow> 'a world \<Rightarrow> 'a world" where
  "save_checkpoint_cell model w =
     (let (checkpoint, w1) = make_checkpoint model w in
      torch_save checkpoint ''checkpoint.pth'' w1)"

text \<open>
  \<^verbatim>\<open>
  def load_checkpoint(filepath):
      checkpoint = torch.load(filepath)
      model = fc_model.Network(checkpoint['input_size'],
                               checkpoint['output_size'],
                               checkpoint['hidden_layers'])
      model.load_state_dict(checkpoint['state_dict'])

      return model
  \<close>
  Every raise of a callee leaves the function at once: there is no \<^verbatim>\<open>try\<close> in it. The
  three arguments of the constructor are looked up from left to right before it is called;
  \<^verbatim>\<open>checkpoint['state_dict']\<close> is looked up after the model is constructed.
\<close>

definition load_checkpoint ::
  "(string \<Rightarrow> 'a) \<Rightarrow> string \<Rightarrow> 'a world \<Rightarrow> (error + 'a network) \<times> 'a world" where
  "load_checkpoint init filepath w =
     (case torch_load filepath w of
        (Inl e, w1) \<Rightarrow> (Inl e, w1)
      | (Inr checkpoint, w1) \<Rightarrow>
     (case getitem checkpoint ''input_size'' of
        Inl e \<Rightarrow> (Inl e, w1)
      | Inr a \<Rightarrow>
     (case getitem checkpoint ''output_size'' of
        Inl e \<Rightarrow> (Inl e, w1)
      | Inr b \<Rightarrow>
     (case getitem checkpoint ''hidden_layers'' of
        Inl e \<Rightarrow> (Inl e, w1)
      | Inr c \<Rightarrow>
     (case call_Network init a b c w1 of
        (Inl e, w2) \<Rightarrow> (Inl e, w2)
      | (Inr model, w2) \<Rightarrow>
     (case getitem checkpoint ''state_dict'' of
        Inl e \<Rightarrow> (Inl e, w2)
      | Inr sd \<Rightarrow>
     (case call_load_state_dict model sd w2 of
        (Inl e, w3) \<Rightarrow> (Inl e, w3)
      | (Inr model', w3) \<Rightarrow> (Inr model', w3))))))))"

subsection \<open>The spec's condition for a restore\<close>

text \<open>
  The spec's "exact structural equality between saved and constructed parameter shapes",
  in its own words and apart from the restore above: a name has a tensor in the saved
  mapping exactly if it has one in the constructed model, and then the two shapes are
  equal. Only the names of the two mappings need to be compared.
\<close>

definition shapes_of :: "'a odict \<Rightarrow> (string \<times> int list) list" where
  "shapes_of sd = map (\<lambda>(k, t). (k, shape t)) sd"

definition same_shapes :: "'a odict \<Rightarrow> 'a odict \<Rightarrow> bool" where
  "same_shapes saved constructed =
     list_all (\<lambda>k. map_of (shapes_of saved) k = map_of (shapes_of constructed) k)
       (map fst saved @ map fst constructed)"

text \<open>The messages of the restore that report a pair of different shapes.\<close>

definition is_size_mismatch :: "load_msg \<Rightarrow> bool" where
  "is_size_mismatch msg = (case msg of SizeMismatch k saved own \<Rightarrow> True | _ \<Rightarrow> False)"



section \<open>Training a network (notebook Part 4)\<close>

subsection \<open>The framework, as the training cells use it\<close>

text \<open>
  The cells only sequence calls into the framework. Its operations are parameters here:
  \<open>'s\<close> is the state that the model and the optimizer share (weights and accumulated
  gradients), \<open>'x\<close> a batch of images, \<open>'y\<close> its labels, \<open>'o\<close> the output of the network
  and \<open>'l\<close> a loss tensor. \<^verbatim>\<open>loss.item()\<close> is a Python float, taken as the real number it
  denotes; sums and quotients of floats are taken without rounding.
\<close>

record ('s, 'x, 'y, 'o, 'l) framework =
  size0 :: "'x \<Rightarrow> int"
  resize :: "'x \<Rightarrow> int \<Rightarrow> int \<Rightarrow> 'x"
  zero_grad :: "'s \<Rightarrow> 's"
  forward :: "'s \<Rightarrow> 'x \<Rightarrow> 'o"
  criterion :: "'o \<Rightarrow> 'y \<Rightarrow> 'l"
  backward :: "'l \<Rightarrow> 's \<Rightarrow> 's"
  step :: "'s \<Rightarrow> 's"
  item :: "'l \<Rightarrow> real"

text \<open>
  The framework calls of a training iteration that act on the images, the model or the
  optimizer, logged in the order they are made. The two read-outs \<^verbatim>\<open>images.size()\<close> and
  \<^verbatim>\<open>loss.item()\<close> change nothing and are not logged.
\<close>

datatype train_call =
    Resize int int
  | ZeroGrad
  | Forward
  | Criterion
  | Backward
  | Step

text \<open>
  The variables of the training cell: the framework's state, \<^verbatim>\<open>steps\<close>, \<^verbatim>\<open>running_loss\<close>, the
  lines printed so far (the epoch number \<^verbatim>\<open>e+1\<close>, \<^verbatim>\<open>epochs\<close> and the value given to the
  \<^verbatim>\<open>Loss\<close> format), and the call log.
\<close>

record 's train_state =
  fstate :: 's
  steps :: nat
  running_loss :: real
  printed :: "(nat \<times> nat \<times> real) list"
  calls :: "train_call list"

subsection \<open>The training cells\<close>

definition epochs :: nat where
  "epochs = 3"

definition print_every :: nat where
  "print_every = 40"

definition logged :: "train_call \<Rightarrow> 's train_state \<Rightarrow> 's train_state" where
  "logged c st = st\<lparr>calls := calls st @ [c]\<rparr>"

text \<open>
  The body of the inner loop:
  \<^verbatim>\<open>
        steps += 1
        # Flatten MNIST images into a 784 long vector
        images.resize_(images.size()[0], 784)

        optimizer.zero_grad()

        # Forward and backward passes
        output = model.forward(images)
        loss = criterion(output, labels)
        loss.backward()
        optimizer.step()

        running_loss += loss.item()

        if steps % print_every == 0:
            print("Epoch: {}/{}... ".format(e+1, epochs),
                  "Loss: {:.4f}".format(running_loss/print_every))

            running_loss = 0
  \<close>
\<close>

definition train_iteration ::
  "('s, 'x, 'y, 'o, 'l) framework \<Rightarrow> nat \<Rightarrow> 'x \<times> 'y \<Rightarrow> 's train_state \<Rightarrow> 's train_state" where
  "train_iteration fw e batch st =
     (let (images, labels) = batch;
          st1 = st\<lparr>steps := steps st + 1\<rparr>;
          n = size0 fw images;
          images' = resize fw images n 784;
          st2 = logged (Resize n 784) st1;
          st3 = logged ZeroGrad (st2\<lparr>fstate := zero_grad fw (fstate st2)\<rparr>);
          output = forward fw (fstate st3) images';
          st4 = logged Forward st3;
          loss = criterion fw output labels;
          st5 = logged Criterion st4;
          st6 = logged Backward (st5\<lparr>fstate := backward fw loss (fstate st5)\<rparr>);
          st7 = logged Step (st6\<lparr>fstate := step fw (fstate st6)\<rparr>);
          st8 = st7\<lparr>running_loss := running_loss st7 + item fw loss\<rparr>
      in if steps st8 mod print_every = 0
         then st8\<lparr>printed := printed st8 @ [(e + 1, epochs, running_loss st8 / real print_every)],
                  running_loss := 0\<rparr>
         else st8)"

text \<open>\<^verbatim>\<open>for images, labels in iter(trainloader):\<close> over the batches the loader yields.\<close>

fun train_batches ::
  "('s, 'x, 'y, 'o, 'l) framework \<Rightarrow> nat \<Rightarrow> ('x \<times> 'y) list \<Rightarrow> 's train_state \<Rightarrow> 's train_state" where
  "train_batches fw e [] st = st"
| "train_batches fw e (batch # rest) st = train_batches fw e rest (train_iteration fw e batch st)"

text \<open>
  \<^verbatim>\<open>
  for e in range(epochs):
      running_loss = 0
      for images, labels in iter(trainloader):
  \<close>
  The loader shuffles: \<open>trainloader e\<close> is the list of batches it yields in epoch \<open>e\<close>.
\<close>

fun train_epochs ::
  "('s, 'x, 'y, 'o, 'l) framework \<Rightarrow> (nat \<Rightarrow> ('x \<times> 'y) list) \<Rightarrow> nat list \<Rightarrow> 's train_state
     \<Rightarrow> 's train_state" where
  "train_epochs fw trainloader [] st = st"
| "train_epochs fw trainloader (e # es) st =
     train_epochs fw trainloader es (train_batches fw e (trainloader e) (st\<lparr>running_loss := 0\<rparr>))"

text \<open>
  The loader of the notebook:
  \<^verbatim>\<open>
  trainset = datasets.MNIST('MNIST_data/', download=True, train=True, transform=transform)
  trainloader = torch.utils.data.DataLoader(trainset, batch_size=64, shuffle=True)
  \<close>
  The MNIST training set the cell downloads has 60000 images, so every epoch has
  938 batches, the last one short (the 23, 23 and 24 lines that the stored output of the
  training cell shows for the three epochs are the multiples of 40 up to 938, 1876 and
  2814). The notebook's criterion is \<^verbatim>\<open>nn.CrossEntropyLoss()\<close>, whose value is positive.
\<close>

definition batch_size :: nat where
  "batch_size = 64"

definition mnist_train_size :: nat where
  "mnist_train_size = 60000"

definition batches_per_epoch :: nat where
  "batches_per_epoch = (mnist_train_size + batch_size - 1) div batch_size"

definition notebook_loader :: "(nat \<Rightarrow> ('x \<times> 'y) list) \<Rightarrow> bool" where
  "notebook_loader trainloader \<longleftrightarrow>
     list_all (\<lambda>e. length (trainloader e) = batches_per_epoch) [0..<epochs]"

text \<open>
  The cell starts with \<^verbatim>\<open>steps = 0\<close>; \<open>training_upto n\<close> is the state after the first \<open>n\<close>
  rounds of the outer loop, and the whole cell runs \<^verbatim>\<open>range(epochs)\<close>.
\<close>

definition start_state :: "'s \<Rightarrow> 's train_state" where
  "start_state s = \<lparr>fstate = s, steps = 0, running_loss = 0, printed = [], calls = []\<rparr>"

definition training_upto ::
  "('s, 'x, 'y, 'o, 'l) framework \<Rightarrow> (nat \<Rightarrow> ('x \<times> 'y) list) \<Rightarrow> 's \<Rightarrow> nat \<Rightarrow> 's train_state" where
  "training_upto fw trainloader s n = train_epochs fw trainloader [0..<n] (start_state s)"

definition training_cell ::
  "('s, 'x, 'y, 'o, 'l) framework \<Rightarrow> (nat \<Rightarrow> ('x \<times> 'y) list) \<Rightarrow> 's \<Rightarrow> 's train_state" where
  "training_cell fw trainloader s = training_upto fw trainloader s epochs"

text \<open>
  The cell with one training step:
  \<^verbatim>\<open>
  images, labels = next(iter(trainloader))
  images.resize_(64, 784)

  # Clear the gradients, do this because gradients are accumulated
  optimizer.zero_grad()

  # Forward pass, then backward pass, then update weights
  output = model.forward(images)
  loss = criterion(output, labels)
  loss.backward()
  print('Gradient -', model.fc1.weight.grad)
  optimizer.step()
  \<close>
\<close>

definition single_step_cell ::
  "('s, 'x, 'y, 'o, 'l) framework \<Rightarrow> 'x \<times> 'y \<Rightarrow> 's train_state \<Rightarrow> 's train_state" where
  "single_step_cell fw batch st =
     (let (images, labels) = batch;
          images' = resize fw images 64 784;
          st2 = logged (Resize 64 784) st;
          st3 = logged ZeroGrad (st2\<lparr>fstate := zero_grad fw (fstate st2)\<rparr>);
          output = forward fw (fstate st3) images';
          st4 = logged Forward st3;
          loss = criterion fw output labels;
          st5 = logged Criterion st4;
          st6 = logged Backward (st5\<lparr>fstate := backward fw loss (fstate st5)\<rparr>)
      in logged Step (st6\<lparr>fstate := step fw (fstate st6)\<rparr>))"

subsection \<open>The losses of a run\<close>

text \<open>
  What one iteration computes, read off the body above: the loss of a batch in a framework
  state, and the framework state after the batch. \<open>batch_losses\<close> lists the losses of
  successive batches, each in the state its predecessors left.
\<close>

definition loss_of :: "('s, 'x, 'y, 'o, 'l) framework \<Rightarrow> 's \<Rightarrow> 'x \<times> 'y \<Rightarrow> 'l" where
  "loss_of fw s batch =
     criterion fw (forward fw (zero_grad fw s) (resize fw (fst batch) (size0 fw (fst batch)) 784))
       (snd batch)"

definition fstate_after :: "('s, 'x, 'y, 'o, 'l) framework \<Rightarrow> 's \<Rightarrow> 'x \<times> 'y \<Rightarrow> 's" where
  "fstate_after fw s batch = step fw (backward fw (loss_of fw s batch) (zero_grad fw s))"

fun batch_losses :: "('s, 'x, 'y, 'o, 'l) framework \<Rightarrow> 's \<Rightarrow> ('x \<times> 'y) list \<Rightarrow> real list" where
  "batch_losses fw s [] = []"
| "batch_losses fw s (batch # rest) =
     item fw (loss_of fw s batch) # batch_losses fw (fstate_after fw s batch) rest"

text \<open>The calls of one iteration on a batch, in the order the claim gives.\<close>

definition iteration_calls :: "('s, 'x, 'y, 'o, 'l) framework \<Rightarrow> 'x \<times> 'y \<Rightarrow> train_call list" where
  "iteration_calls fw batch =
     [Resize (size0 fw (fst batch)) 784, ZeroGrad, Forward, Criterion, Backward, Step]"

text \<open>The number of iterations made before epoch \<open>e\<close> starts.\<close>

definition steps_before :: "(nat \<Rightarrow> ('x \<times> 'y) list) \<Rightarrow> nat \<Rightarrow> nat" where
  "steps_before trainloader e = (\<Sum>j\<leftarrow>[0..<e]. length (trainloader j))"

text \<open>The first value printed with a given epoch number, if there is one.\<close>

definition first_printed :: "nat \<Rightarrow> (nat \<times> nat \<times> real) list \<Rightarrow> real option" where
  "first_printed n ps =
     (case filter (\<lambda>p. fst p = n) ps of [] \<Rightarrow> None | p # _ \<Rightarrow> Some (snd (snd p)))"

section \<open>Concrete inputs\<close>

text \<open>A framework on one-point types in which every loss is 1, and loaders of fixed length.\<close>

definition unit_framework :: "(unit, unit, unit, unit, unit) framework" where
  "unit_framework =
     \<lparr>size0 = (\<lambda>x. 64), resize = (\<lambda>x n k. x), zero_grad = (\<lambda>s. s), forward = (\<lambda>s x. ()),
      criterion = (\<lambda>out y. ()), backward = (\<lambda>l s. s), step = (\<lambda>s. s), item = (\<lambda>l. 1)\<rparr>"

text \<open>
  Parameter numbers for concrete models: a "trained" model whose numbers differ from
  parameter to parameter, and the fresh numbers of a newly constructed one. The world
  before any cell has run has no file and an empty log. A small model of the notebook's
  sizes and one of other sizes, and the worlds after a save cell has run on them.
\<close>

definition trained_init :: "string \<Rightarrow> nat" where
  "trained_init name = length name"

definition fresh_init :: "string \<Rightarrow> nat" where
  "fresh_init name = 0"

definition empty_world :: "nat world" where
  "empty_world = \<lparr>files = Map.empty, trace = []\<rparr>"

definition tiny_model :: "nat network" where
  "tiny_model = Network trained_init 784 10 [4]"

definition tiny_checkpoint :: "nat pydict" where
  "tiny_checkpoint = fst (make_checkpoint tiny_model empty_world)"

definition tiny_world :: "nat world" where
  "tiny_world = save_checkpoint_cell tiny_model empty_world"


definition odd_model :: "nat network" where
  "odd_model = Network trained_init 3 2 [4]"

definition odd_world :: "nat world" where
  "odd_world = save_checkpoint_cell odd_model empty_world"



definition loader_of :: "nat \<Rightarrow> nat \<Rightarrow> (unit \<times> unit) list" where
  "loader_of n e = replicate n ((), ())"

section \<open>Lemmas\<close>

subsection \<open>Parameter names\<close>

lemma of_char_digit: "n < 10 \<Longrightarrow> (of_char (digit n) :: nat) = 48 + n"
  by (simp add: digit_def)

lemma digit_inj: "n < 10 \<Longrightarrow> m < 10 \<Longrightarrow> digit n = digit m \<Longrightarrow> n = m"
proof -
  assume n: "n < 10" and m: "m < 10" and eq: "digit n = digit m"
  have "48 + n = (of_char (digit n) :: nat)" using n by (simp only: of_char_digit)
  also have "\<dots> = of_char (digit m)" by (simp only: eq)
  also have "\<dots> = 48 + m" using m by (simp only: of_char_digit)
  finally show "n = m" by simp
qed

lemma digit_not_dot: "n < 10 \<Longrightarrow> digit n \<noteq> CHR ''.''"
proof
  assume "n < 10" and "digit n = CHR ''.''"
  then have "(of_char (CHR ''.'') :: nat) = 48 + n"
    using of_char_digit [of n] by simp
  then show False by simp
qed

lemma show_nat_no_dot: "CHR ''.'' \<notin> set (show_nat n)"
proof (induction n rule: show_nat.induct)
  case (1 n)
  show ?case
  proof (cases "n < 10")
    case True
    then show ?thesis using digit_not_dot [of n] by (subst show_nat.simps) auto
  next
    case False
    have "n mod 10 < 10" by simp
    then have "digit (n mod 10) \<noteq> CHR ''.''" by (rule digit_not_dot)
    with False 1 show ?thesis by (subst show_nat.simps) auto
  qed
qed

lemma show_nat_nonempty: "show_nat n \<noteq> []"
  by (subst show_nat.simps) simp

lemma show_nat_inj: "show_nat n = show_nat m \<Longrightarrow> n = m"
proof (induction n arbitrary: m rule: show_nat.induct)
  case (1 n)
  show ?case
  proof (cases "n < 10")
    case n: True
    show ?thesis
    proof (cases "m < 10")
      case True
      with n 1(2) show ?thesis
        by (simp add: show_nat.simps [of n] show_nat.simps [of m] digit_inj)
    next
      case False
      with n 1(2) show ?thesis
        using show_nat_nonempty [of "m div 10"]
        by (simp add: show_nat.simps [of n] show_nat.simps [of m])
    qed
  next
    case n: False
    show ?thesis
    proof (cases "m < 10")
      case True
      with n 1(2) show ?thesis
        using show_nat_nonempty [of "n div 10"]
        by (simp add: show_nat.simps [of n] show_nat.simps [of m])
    next
      case False
      with n 1(2) have eq: "show_nat (n div 10) = show_nat (m div 10)"
        and d: "digit (n mod 10) = digit (m mod 10)"
        by (simp_all add: show_nat.simps [of n] show_nat.simps [of m])
      from 1(1) [OF n eq] have "n div 10 = m div 10" .
      moreover from d have "n mod 10 = m mod 10" by (intro digit_inj) simp_all
      ultimately show ?thesis by (metis div_mult_mod_eq)
    qed
  qed
qed

lemma split_at_dot:
  assumes "CHR ''.'' \<notin> set a" and "CHR ''.'' \<notin> set b"
    and "a @ CHR ''.'' # r = b @ CHR ''.'' # r'"
  shows "a = b \<and> r = r'"
proof -
  have "takeWhile (\<lambda>c. c \<noteq> CHR ''.'') (a @ CHR ''.'' # r) = a"
    using assms(1) by (subst takeWhile_append2) auto
  moreover have "takeWhile (\<lambda>c. c \<noteq> CHR ''.'') (b @ CHR ''.'' # r') = b"
    using assms(2) by (subst takeWhile_append2) auto
  ultimately have "a = b" using assms(3) by simp
  with assms(3) show ?thesis by simp
qed

lemma hidden_key_eq:
  "hidden_name k @ CHR ''.'' # r = hidden_name j @ CHR ''.'' # r' \<longleftrightarrow> k = j \<and> r = r'"
proof
  assume "hidden_name k @ CHR ''.'' # r = hidden_name j @ CHR ''.'' # r'"
  then have "show_nat k @ CHR ''.'' # r = show_nat j @ CHR ''.'' # r'"
    by (simp add: hidden_name_def)
  then have "show_nat k = show_nat j \<and> r = r'"
    by (rule split_at_dot [OF show_nat_no_dot show_nat_no_dot])
  then show "k = j \<and> r = r'" by (simp add: show_nat_inj)
next
  assume "k = j \<and> r = r'"
  then show "hidden_name k @ CHR ''.'' # r = hidden_name j @ CHR ''.'' # r'" by simp
qed

lemma hidden_name_eq: "hidden_name k = hidden_name j \<longleftrightarrow> k = j"
  by (auto simp: hidden_name_def show_nat_inj)

lemma hidden_key_not_output [simp]:
  "hidden_name k @ s \<noteq> CHR ''o'' # t" "CHR ''o'' # t \<noteq> hidden_name k @ s"
  by (simp_all add: hidden_name_def)

lemma hidden_key_not_config [simp]:
  "hidden_name k @ CHR ''.'' # r \<noteq> ''hidden_layers''" 
  by (simp add: hidden_name_def)

lemma named_params_keys:
  "fst ` set (named_params j ls) =
     (\<Union>k\<in>{j..<j + length ls}. {hidden_name k @ ''.weight'', hidden_name k @ ''.bias''})"
proof (induction ls arbitrary: j)
  case Nil
  then show ?case by simp
next
  case (Cons l ls)
  have "{j..<j + length (l # ls)} = insert j {Suc j..<Suc j + length ls}" by auto
  then show ?case by (simp add: Cons layer_params_def)
qed

lemma named_params_distinct: "distinct (map fst (named_params j ls))"
proof (induction ls arbitrary: j)
  case Nil
  then show ?case by simp
next
  case (Cons l ls)
  have "hidden_name j @ ''.weight'' \<notin> fst ` set (named_params (Suc j) ls)"
    "hidden_name j @ ''.bias'' \<notin> fst ` set (named_params (Suc j) ls)"
    by (auto simp: named_params_keys hidden_key_eq hidden_name_eq)
  then show ?case using Cons [of "Suc j"] by (simp add: layer_params_def hidden_key_eq hidden_name_eq)
qed

lemma state_dict_distinct: "distinct (map fst (state_dict m))"
  by (auto simp: state_dict_def named_params_distinct layer_params_def named_params_keys)

lemma state_dict_keys:
  "fst ` set (state_dict m) =
     (\<Union>k\<in>{0..<length (hidden_layers m)}. {hidden_name k @ ''.weight'', hidden_name k @ ''.bias''})
     \<union> {''output.weight'', ''output.bias''}"
  by (auto simp: state_dict_def named_params_keys layer_params_def image_Un)

lemma state_dict_lookup: "(k, t) \<in> set (state_dict m) \<Longrightarrow> map_of (state_dict m) k = Some t"
  by (simp add: state_dict_distinct)

subsection \<open>When a restore succeeds\<close>

lemma map_of_shapes_of: "map_of (shapes_of sd) k = map_option shape (map_of sd k)"
  by (induction sd) (auto simp: shapes_of_def)

lemma same_shapes_iff:
  "same_shapes saved constructed \<longleftrightarrow>
     (\<forall>k. map_option shape (map_of saved k) = map_option shape (map_of constructed k))"
proof
  assume h: "same_shapes saved constructed"
  show "\<forall>k. map_option shape (map_of saved k) = map_option shape (map_of constructed k)"
  proof
    fix k
    show "map_option shape (map_of saved k) = map_option shape (map_of constructed k)"
    proof (cases "k \<in> fst ` set saved \<union> fst ` set constructed")
      case True
      with h show ?thesis
        by (auto simp: same_shapes_def list_all_iff map_of_shapes_of)
    next
      case False
      then have "map_of saved k = None" "map_of constructed k = None"
        by (simp_all add: map_of_eq_None_iff)
      then show ?thesis by simp
    qed
  qed
next
  assume "\<forall>k. map_option shape (map_of saved k) = map_option shape (map_of constructed k)"
  then show "same_shapes saved constructed"
    by (simp add: same_shapes_def list_all_iff map_of_shapes_of)
qed

lemma load_msgs_Nil_iff:
  "load_msgs own sd = [] \<longleftrightarrow>
     (\<forall>(k, p) \<in> set own. \<exists>t. map_of sd k = Some t \<and> shape t = shape p) \<and>
     (\<forall>(k, t) \<in> set sd. map_of own k \<noteq> None)"
  by (fastforce simp: load_msgs_def split: option.splits if_splits)

lemma load_msgs_Nil_same_shapes:
  assumes "distinct (map fst own)"
  shows "load_msgs own sd = [] \<longleftrightarrow> same_shapes sd own"
proof
  assume e: "load_msgs own sd = []"
  show "same_shapes sd own"
    unfolding same_shapes_iff
  proof
    fix k
    show "map_option shape (map_of sd k) = map_option shape (map_of own k)"
    proof (cases "map_of own k")
      case None
      have "map_of sd k = None"
      proof (cases "map_of sd k")
        case (Some t)
        then have "(k, t) \<in> set sd" by (rule map_of_SomeD)
        with e have "map_of own k \<noteq> None" unfolding load_msgs_Nil_iff by blast
        with None show ?thesis by simp
      qed simp
      with None show ?thesis by simp
    next
      case (Some p)
      then have "(k, p) \<in> set own" by (rule map_of_SomeD)
      with e obtain t where "map_of sd k = Some t" "shape t = shape p"
        unfolding load_msgs_Nil_iff by blast
      with Some show ?thesis by simp
    qed
  qed
next
  assume s: "same_shapes sd own"
  then have eq: "\<And>k. map_option shape (map_of sd k) = map_option shape (map_of own k)"
    unfolding same_shapes_iff by blast
  show "load_msgs own sd = []"
    unfolding load_msgs_Nil_iff
  proof (intro conjI ballI)
    fix x assume x: "x \<in> set own"
    obtain k p where kp: "x = (k, p)" by (cases x)
    with x assms have "map_of own k = Some p" by simp
    with eq [of k] obtain t where "map_of sd k = Some t" "shape t = shape p" by auto
    with kp show "case x of (k, p) \<Rightarrow> \<exists>t. map_of sd k = Some t \<and> shape t = shape p" by simp
  next
    fix x assume x: "x \<in> set sd"
    obtain k t where kt: "x = (k, t)" by (cases x)
    with x have "map_of sd k \<noteq> None" by (metis fst_conv image_eqI map_of_eq_None_iff)
    with eq [of k] have "map_of own k \<noteq> None" by (cases "map_of own k") auto
    with kt show "case x of (k, t) \<Rightarrow> map_of own k \<noteq> None" by simp
  qed
qed

lemma load_state_dict_ok_iff:
  "(\<exists>m'. load_state_dict m sd = Inr m') \<longleftrightarrow> same_shapes sd (state_dict m)"
  using load_msgs_Nil_same_shapes [OF state_dict_distinct, of m sd]
  by (auto simp: load_state_dict_def Let_def)

lemma load_state_dict_cases:
  "load_state_dict m sd = Inl e \<Longrightarrow> \<exists>msgs. e = RuntimeError msgs \<and> msgs \<noteq> []"
  by (auto simp: load_state_dict_def Let_def split: if_splits)

subsection \<open>Restoring into a model of the same configuration\<close>

lemma out_features_hidden_stack: "map out_features (hidden_stack init k n_in hs) = hs"
  by (induction hs arbitrary: k n_in) (simp_all add: Linear_def)

lemma shapes_hidden_stack:
  "shapes_of (named_params k (hidden_stack init k n_in hs)) =
   shapes_of (named_params k (hidden_stack init' k n_in hs))"
  by (induction hs arbitrary: k n_in) (simp_all add: shapes_of_def layer_params_def Linear_def)

lemma shapes_Network:
  "shapes_of (state_dict (Network init input_size output_size hs)) =
   shapes_of (state_dict (Network init' input_size output_size hs))"
  using shapes_hidden_stack [of 0 init input_size hs init']
  by (simp add: state_dict_def Network_def shapes_of_def layer_params_def Linear_def)

lemma same_shapes_Network:
  "same_shapes (state_dict (Network init input_size output_size hs))
     (state_dict (Network init' input_size output_size hs))"
  unfolding same_shapes_iff
  using shapes_Network [of init input_size output_size hs init']
  by (metis map_of_shapes_of)

lemma load_linear_Linear:
  assumes "map_of sd (name @ ''.weight'') = Some (weight (Linear init name n_in n_out))"
    and "map_of sd (name @ ''.bias'') = Some (bias (Linear init name n_in n_out))"
  shows "load_linear name sd (Linear init' name n_in n_out) = Linear init name n_in n_out"
  using assms by (simp add: load_linear_def copy_param_def Linear_def)

lemma load_layers_hidden_stack:
  assumes "\<forall>kv \<in> set (named_params k (hidden_stack init k n_in hs)). map_of sd (fst kv) = Some (snd kv)"
  shows "load_layers k sd (hidden_stack init' k n_in hs) = hidden_stack init k n_in hs"
  using assms
proof (induction hs arbitrary: k n_in)
  case Nil
  then show ?case by simp
next
  case (Cons h hs)
  from Cons.prems have
    "map_of sd (hidden_name k @ ''.weight'') = Some (weight (Linear init (hidden_name k) n_in h))"
    "map_of sd (hidden_name k @ ''.bias'') = Some (bias (Linear init (hidden_name k) n_in h))"
    by (simp_all add: layer_params_def)
  then have "load_linear (hidden_name k) sd (Linear init' (hidden_name k) n_in h)
      = Linear init (hidden_name k) n_in h"
    by (rule load_linear_Linear)
  moreover have "load_layers (Suc k) sd (hidden_stack init' (Suc k) h hs) = hidden_stack init (Suc k) h hs"
    using Cons.prems by (intro Cons.IH) simp
  ultimately show ?case by simp
qed

lemma load_state_dict_Network:
  "load_state_dict (Network init' input_size output_size hs)
     (state_dict (Network init input_size output_size hs)) =
   Inr (Network init input_size output_size hs)"
proof -
  let ?m = "Network init input_size output_size hs"
  let ?m' = "Network init' input_size output_size hs"
  have "same_shapes (state_dict ?m) (state_dict ?m')" by (rule same_shapes_Network)
  then have ok: "load_msgs (state_dict ?m') (state_dict ?m) = []"
    by (simp add: load_msgs_Nil_same_shapes [OF state_dict_distinct])
  have look: "\<forall>kv \<in> set (state_dict ?m). map_of (state_dict ?m) (fst kv) = Some (snd kv)"
    by (auto intro: state_dict_lookup)
  have "\<forall>kv \<in> set (named_params 0 (hidden_stack init 0 input_size hs)).
      map_of (state_dict ?m) (fst kv) = Some (snd kv)"
    using look by (simp add: state_dict_def Network_def)
  then have hid: "load_layers 0 (state_dict ?m) (hidden_stack init' 0 input_size hs)
      = hidden_stack init 0 input_size hs"
    by (rule load_layers_hidden_stack)
  have "map_of (state_dict ?m) (''output'' @ ''.weight'') =
      Some (weight (Linear init ''output'' (last (input_size # hs)) output_size))"
    "map_of (state_dict ?m) (''output'' @ ''.bias'') =
      Some (bias (Linear init ''output'' (last (input_size # hs)) output_size))"
    by (rule state_dict_lookup, simp add: state_dict_def Network_def layer_params_def)+
  then have out: "load_linear ''output'' (state_dict ?m)
      (Linear init' ''output'' (last (input_size # hs)) output_size)
      = Linear init ''output'' (last (input_size # hs)) output_size"
    by (rule load_linear_Linear)
  show ?thesis
    unfolding load_state_dict_def Let_def ok
    using hid out by (simp add: Network_def)
qed

lemma load_checkpoint_record:
  assumes "files w filepath = Some d"
    and "map_of d ''input_size'' = Some (IntV input_size)"
    and "map_of d ''output_size'' = Some (IntV output_size)"
    and "map_of d ''hidden_layers'' = Some (IntListV hs)"
    and "map_of d ''state_dict'' = Some v"
  shows "load_checkpoint init filepath w =
    call_load_state_dict (Network init input_size output_size hs) v
      (w\<lparr>trace := trace w @ [EvLoad filepath,
            EvNetwork (IntV input_size) (IntV output_size) (IntListV hs)]\<rparr>)"
  using assms
  by (simp add: load_checkpoint_def torch_load_def getitem_def call_Network_def Let_def
      split: prod.splits sum.splits)

lemma size_mismatch_in_msgs:
  "(k, p) \<in> set own \<Longrightarrow> map_of sd k = Some t \<Longrightarrow> shape t \<noteq> shape p \<Longrightarrow>
     SizeMismatch k (shape t) (shape p) \<in> set (load_msgs own sd)"
  by (force simp: load_msgs_def)

lemma output_weight_in_state_dict:
  "(''output.weight'', weight (output_layer m)) \<in> set (state_dict m)"
  by (simp add: state_dict_def layer_params_def)

lemma first_weight_in_state_dict:
  "hidden_layers m = l # ls \<Longrightarrow> (hidden_name 0 @ ''.weight'', weight l) \<in> set (state_dict m)"
  by (simp add: state_dict_def layer_params_def)

lemma literal_sizes_mismatch_msgs:
  assumes "input_size \<noteq> 784 \<or> output_size \<noteq> 10"
  shows "\<exists>k s s'. SizeMismatch k s s' \<in>
     set (load_msgs (state_dict (Network init' 784 10 hs))
            (state_dict (Network init input_size output_size hs)))"
proof -
  let ?own = "state_dict (Network init' 784 10 hs)"
  let ?sd = "state_dict (Network init input_size output_size hs)"
  show ?thesis
  proof (cases "output_size \<noteq> 10 \<or> hs = []")
    case True
    let ?p = "weight (output_layer (Network init' 784 10 hs))"
    let ?t = "weight (output_layer (Network init input_size output_size hs))"
    have "(''output.weight'', ?p) \<in> set ?own" by (rule output_weight_in_state_dict)
    moreover have "map_of ?sd ''output.weight'' = Some ?t"
      by (rule state_dict_lookup) (rule output_weight_in_state_dict)
    moreover have "shape ?t \<noteq> shape ?p"
      using True assms by (auto simp: Network_def Linear_def)
    ultimately show ?thesis by (blast dest: size_mismatch_in_msgs)
  next
    case False
    then obtain h hs' where hs: "hs = h # hs'" and i: "input_size \<noteq> 784"
      using assms by (cases hs) auto
    let ?p = "weight (Linear init' (hidden_name 0) 784 h)"
    let ?t = "weight (Linear init (hidden_name 0) input_size h)"
    have "(hidden_name 0 @ ''.weight'', ?p) \<in> set ?own"
      by (rule first_weight_in_state_dict) (simp add: hs Network_def)
    moreover have "map_of ?sd (hidden_name 0 @ ''.weight'') = Some ?t"
      by (rule state_dict_lookup, rule first_weight_in_state_dict) (simp add: hs Network_def)
    moreover have "shape ?t \<noteq> shape ?p"
      using i by (simp add: Linear_def)
    ultimately show ?thesis by (blast dest: size_mismatch_in_msgs)
  qed
qed

lemma load_state_dict_Inl:
  "load_msgs (state_dict m) sd \<noteq> [] \<Longrightarrow>
     load_state_dict m sd = Inl (RuntimeError (load_msgs (state_dict m) sd))"
  by (simp add: load_state_dict_def Let_def)

lemma saved_checkpoint_file:
  "files (save_checkpoint_cell model w) ''checkpoint.pth'' =
     Some [(''input_size'', IntV 784), (''output_size'', IntV 10),
           (''hidden_layers'', IntListV (map out_features (hidden_layers model))),
           (''state_dict'', StateDictV (state_dict model))]"
  by (simp add: save_checkpoint_cell_def make_checkpoint_def call_state_dict_def torch_save_def)

lemma load_saved_checkpoint:
  "load_checkpoint init' ''checkpoint.pth'' (save_checkpoint_cell model w) =
     call_load_state_dict (Network init' 784 10 (map out_features (hidden_layers model)))
       (StateDictV (state_dict model))
       ((save_checkpoint_cell model w)\<lparr>trace := trace (save_checkpoint_cell model w) @
          [EvLoad ''checkpoint.pth'',
           EvNetwork (IntV 784) (IntV 10) (IntListV (map out_features (hidden_layers model)))]\<rparr>)"
  by (rule load_checkpoint_record [OF saved_checkpoint_file]) simp_all

lemma hidden_layers_Network:
  "map out_features (hidden_layers (Network init input_size output_size hs)) = hs"
  by (simp add: Network_def out_features_hidden_stack)

lemma fst_call_load_state_dict:
  "fst (call_load_state_dict m (StateDictV sd) w) = load_state_dict m sd"
  by (simp add: call_load_state_dict_def Let_def)

lemma trace_call_load_state_dict:
  "trace (snd (call_load_state_dict m v w)) = trace w @ [EvLoadStateDict m v]"
  by (simp add: call_load_state_dict_def Let_def split: pyval.splits)


lemma named_params_same_keys:
  "length ls = length ls' \<Longrightarrow> map fst (named_params k ls) = map fst (named_params k ls')"
proof (induction ls ls' arbitrary: k rule: list_induct2)
  case Nil
  then show ?case by simp
next
  case (Cons l ls l' ls')
  then show ?case by (simp add: layer_params_def)
qed

lemma state_dict_same_keys:
  "length (hidden_layers m) = length (hidden_layers m') \<Longrightarrow>
     map fst (state_dict m) = map fst (state_dict m')"
  using named_params_same_keys [of "hidden_layers m" "hidden_layers m'" 0]
  by (simp add: state_dict_def layer_params_def)

lemma length_hidden_layers_Network:
  "length (hidden_layers (Network init input_size output_size hs)) = length hs"
  using hidden_layers_Network [of init input_size output_size hs]
  by (metis length_map)

lemma load_msgs_same_keys:
  assumes "map fst own = map fst sd"
  shows "list_all is_size_mismatch (load_msgs own sd)"
proof -
  have keys: "fst ` set own = fst ` set sd"
    using assms by (metis set_map)
  have "map_of sd k \<noteq> None" if "(k, p) \<in> set own" for k p
    using that keys by (metis fst_conv image_eqI map_of_eq_None_iff)
  then have missing: "concat (map (\<lambda>(k, p). case map_of sd k of None \<Rightarrow> [MissingKey k]
      | Some t \<Rightarrow> []) own) = []"
    by (fastforce split: option.splits)
  have "map_of own k \<noteq> None" if "(k, t) \<in> set sd" for k t
    using that keys by (metis fst_conv image_eqI map_of_eq_None_iff)
  then have unexpected: "concat (map (\<lambda>(k, t). case map_of own k of None \<Rightarrow> [UnexpectedKey k]
      | Some p \<Rightarrow> []) sd) = []"
    by (fastforce split: option.splits)
  show ?thesis
    unfolding load_msgs_def missing unexpected
    by (auto simp: list_all_iff is_size_mismatch_def split: option.splits if_splits)
qed

lemma saved_checkpoint_only_size_mismatch:
  "list_all is_size_mismatch
     (load_msgs (state_dict (Network init' 784 10 (map out_features (hidden_layers model))))
        (state_dict model))"
  by (rule load_msgs_same_keys, rule state_dict_same_keys)
    (simp add: length_hidden_layers_Network)

subsection \<open>The training loop\<close>

lemma steps_train_iteration: "steps (train_iteration fw e b st) = steps st + 1"
  by (simp add: train_iteration_def logged_def Let_def split: prod.splits)

lemma calls_train_iteration:
  "calls (train_iteration fw e b st) = calls st @ iteration_calls fw b"
  by (simp add: train_iteration_def logged_def iteration_calls_def Let_def split: prod.splits)

lemma fstate_train_iteration:
  "fstate (train_iteration fw e b st) = fstate_after fw (fstate st) b"
  by (simp add: train_iteration_def logged_def fstate_after_def loss_of_def Let_def
      split: prod.splits)

lemma printed_train_iteration:
  "printed (train_iteration fw e b st) =
     (if (steps st + 1) mod print_every = 0
      then printed st @ [(e + 1, epochs,
             (running_loss st + item fw (loss_of fw (fstate st) b)) / real print_every)]
      else printed st)"
  by (simp add: train_iteration_def logged_def loss_of_def Let_def split: prod.splits)

lemma running_loss_train_iteration:
  "running_loss (train_iteration fw e b st) =
     (if (steps st + 1) mod print_every = 0 then 0
      else running_loss st + item fw (loss_of fw (fstate st) b))"
  by (simp add: train_iteration_def logged_def loss_of_def Let_def split: prod.splits)

lemma steps_train_batches: "steps (train_batches fw e bs st) = steps st + length bs"
  by (induction bs arbitrary: st) (simp_all add: steps_train_iteration)

lemma calls_train_batches:
  "calls (train_batches fw e bs st) = calls st @ concat (map (iteration_calls fw) bs)"
  by (induction bs arbitrary: st) (simp_all add: calls_train_iteration)

lemma printed_train_batches_prefix:
  "\<exists>ps. printed (train_batches fw e bs st) = printed st @ ps \<and> (\<forall>p \<in> set ps. fst p = e + 1)"
proof (induction bs arbitrary: st)
  case Nil
  then show ?case by simp
next
  case (Cons b bs)
  obtain ps where ps: "printed (train_batches fw e bs (train_iteration fw e b st)) =
      printed (train_iteration fw e b st) @ ps" "\<forall>p \<in> set ps. fst p = e + 1"
    using Cons [of "train_iteration fw e b st"] by blast
  show ?case
  proof (cases "(steps st + 1) mod print_every = 0")
    case True
    then show ?thesis using ps by (simp add: printed_train_iteration)
  next
    case False
    then show ?thesis using ps by (simp add: printed_train_iteration)
  qed
qed

lemma steps_train_epochs:
  "steps (train_epochs fw loader es st) = steps st + (\<Sum>e\<leftarrow>es. length (loader e))"
  by (induction es arbitrary: st) (simp_all add: steps_train_batches)

lemma calls_train_epochs:
  "calls (train_epochs fw loader es st) =
     calls st @ concat (map (iteration_calls fw) (concat (map loader es)))"
  by (induction es arbitrary: st) (simp_all add: calls_train_batches)

lemma train_epochs_append:
  "train_epochs fw loader (es @ es') st = train_epochs fw loader es' (train_epochs fw loader es st)"
  by (induction es arbitrary: st) simp_all

lemma printed_train_epochs_prefix:
  "\<exists>ps. printed (train_epochs fw loader es st) = printed st @ ps \<and>
     (\<forall>p \<in> set ps. fst p \<in> Suc ` set es)"
proof (induction es arbitrary: st)
  case Nil
  then show ?case by simp
next
  case (Cons e es)
  let ?st1 = "train_batches fw e (loader e) (st\<lparr>running_loss := 0\<rparr>)"
  obtain ps1 where ps1: "printed ?st1 = printed st @ ps1" "\<forall>p \<in> set ps1. fst p = e + 1"
    using printed_train_batches_prefix [of fw e "loader e" "st\<lparr>running_loss := 0\<rparr>"] by auto
  obtain ps2 where ps2: "printed (train_epochs fw loader es ?st1) = printed ?st1 @ ps2"
    "\<forall>p \<in> set ps2. fst p \<in> Suc ` set es"
    using Cons [of ?st1] by blast
  have "printed (train_epochs fw loader (e # es) st) = printed st @ (ps1 @ ps2)"
    using ps1 ps2 by simp
  moreover have "\<forall>p \<in> set (ps1 @ ps2). fst p \<in> Suc ` set (e # es)"
    using ps1 ps2 by auto
  ultimately show ?case by blast
qed

lemma no_print_before_window:
  "steps st mod print_every + length bs < print_every \<Longrightarrow>
     printed (train_batches fw e bs st) = printed st \<and>
     running_loss (train_batches fw e bs st) =
       running_loss st + sum_list (batch_losses fw (fstate st) bs)"
proof (induction bs arbitrary: st)
  case Nil
  then show ?case by simp
next
  case (Cons b bs)
  from Cons.prems have lt: "steps st mod print_every + 1 < print_every" by simp
  then have m: "(steps st + 1) mod print_every = steps st mod print_every + 1"
    by (simp add: mod_Suc)
  then have nz: "(steps st + 1) mod print_every \<noteq> 0" by simp
  have "steps (train_iteration fw e b st) mod print_every + length bs < print_every"
    using Cons.prems m by (simp add: steps_train_iteration)
  from Cons.IH [OF this] nz show ?case
    by (simp add: printed_train_iteration running_loss_train_iteration fstate_train_iteration)
qed

lemma first_print_in_batches:
  "0 < k \<Longrightarrow> steps st mod print_every + k = print_every \<Longrightarrow> k \<le> length bs \<Longrightarrow>
     \<exists>rest. printed (train_batches fw e bs st) =
       printed st @ (e + 1, epochs,
         (running_loss st + sum_list (take k (batch_losses fw (fstate st) bs))) / real print_every)
         # rest"
proof (induction bs arbitrary: st k)
  case Nil
  then show ?case by simp
next
  case (Cons b bs)
  let ?st' = "train_iteration fw e b st"
  show ?case
  proof (cases "k = 1")
    case True
    with Cons.prems have z: "(steps st + 1) mod print_every = 0"
      by (metis Suc_eq_plus1 mod_Suc)
    obtain ps where "printed (train_batches fw e bs ?st') = printed ?st' @ ps"
      using printed_train_batches_prefix [of fw e bs ?st'] by blast
    with z True show ?thesis by (simp add: printed_train_iteration)
  next
    case False
    with Cons.prems obtain k' where k': "k = Suc k'" "0 < k'" by (cases k) auto
    from Cons.prems k' have lt: "steps st mod print_every + 1 < print_every" by simp
    then have m: "(steps st + 1) mod print_every = steps st mod print_every + 1"
      by (simp add: mod_Suc)
    then have nz: "(steps st + 1) mod print_every \<noteq> 0" by simp
    have "steps ?st' mod print_every + k' = print_every"
      using Cons.prems k' m by (simp add: steps_train_iteration)
    moreover have "k' \<le> length bs" using Cons.prems k' by simp
    ultimately obtain rest where "printed (train_batches fw e bs ?st') =
       printed ?st' @ (e + 1, epochs,
         (running_loss ?st' + sum_list (take k' (batch_losses fw (fstate ?st') bs))) / real print_every)
         # rest"
      using Cons.IH [OF k'(2)] by blast
    with nz k' show ?thesis
      by (simp add: printed_train_iteration running_loss_train_iteration fstate_train_iteration
          add.assoc)
  qed
qed

lemma steps_training_upto: "steps (training_upto fw trainloader s n) = steps_before trainloader n"
  by (simp add: training_upto_def steps_train_epochs start_state_def steps_before_def)

lemma first_printed_skip:
  "\<forall>p \<in> set ps. fst p \<noteq> n \<Longrightarrow> first_printed n (ps @ (n, m, v) # rest) = Some v"
  by (simp add: first_printed_def filter_empty_conv [THEN iffD2])

lemma training_cell_split:
  assumes "e < epochs"
  shows "training_cell fw trainloader s =
     train_epochs fw trainloader [Suc e..<epochs]
       (train_batches fw e (trainloader e) ((training_upto fw trainloader s e)\<lparr>running_loss := 0\<rparr>))"
proof -
  from assms have "[0..<epochs] = [0..<e] @ e # [Suc e..<epochs]"
    by (metis le_add1 less_imp_le_nat plus_nat.add_0 upt_add_eq_append upt_conv_Cons le_add_diff_inverse)
  then show ?thesis
    by (simp add: training_cell_def training_upto_def train_epochs_append)
qed

lemma printed_training_upto_labels:
  "\<forall>p \<in> set (printed (training_upto fw trainloader s e)). fst p \<noteq> e + 1"
proof -
  obtain ps where "printed (training_upto fw trainloader s e) = printed (start_state s) @ ps"
    and "\<forall>p \<in> set ps. fst p \<in> Suc ` set [0..<e]"
    unfolding training_upto_def using printed_train_epochs_prefix by blast
  then show ?thesis by (auto simp: start_state_def)
qed

lemma first_print_of_epoch:
  assumes "e < epochs"
    and "steps_before trainloader e mod print_every = r"
    and "r \<noteq> 0"
    and "print_every - r \<le> length (trainloader e)"
  shows "first_printed (e + 1) (printed (training_cell fw trainloader s)) =
      Some (sum_list (take (print_every - r)
              (batch_losses fw (fstate (training_upto fw trainloader s e)) (trainloader e)))
            / real print_every)"
proof -
  let ?st = "(training_upto fw trainloader s e)\<lparr>running_loss := 0\<rparr>"
  let ?k = "print_every - r"
  from assms(2) have "r < print_every" by (auto simp: print_every_def)
  with assms(3) have k: "0 < ?k" by simp
  have "steps ?st mod print_every + ?k = print_every"
    using assms(2) \<open>r < print_every\<close> by (simp add: steps_training_upto)
  from first_print_in_batches [OF k this assms(4), of fw e]
  obtain rest where r1: "printed (train_batches fw e (trainloader e) ?st) =
      printed ?st @ (e + 1, epochs,
        (running_loss ?st + sum_list (take ?k (batch_losses fw (fstate ?st) (trainloader e))))
          / real print_every) # rest"
    by blast
  obtain ps where "printed (training_cell fw trainloader s) =
      printed (train_batches fw e (trainloader e) ?st) @ ps"
    unfolding training_cell_split [OF assms(1)] using printed_train_epochs_prefix by blast
  with r1 have "printed (training_cell fw trainloader s) =
      printed (training_upto fw trainloader s e) @ (e + 1, epochs,
        sum_list (take ?k (batch_losses fw (fstate (training_upto fw trainloader s e)) (trainloader e)))
          / real print_every) # (rest @ ps)"
    by simp
  then show ?thesis
    using first_printed_skip [OF printed_training_upto_labels] by simp
qed

lemma fstate_train_batches:
  "fstate (train_batches fw e bs st) = foldl (fstate_after fw) (fstate st) bs"
  by (induction bs arbitrary: st) (simp_all add: fstate_train_iteration)

lemma fstate_train_epochs:
  "fstate (train_epochs fw loader es st) =
     foldl (fstate_after fw) (fstate st) (concat (map loader es))"
  by (induction es arbitrary: st) (simp_all add: fstate_train_batches)

lemma steps_before_Suc:
  "steps_before trainloader (Suc e) = steps_before trainloader e + length (trainloader e)"
  by (simp add: steps_before_def)

lemma steps_before_notebook_loader:
  "notebook_loader trainloader \<Longrightarrow> e \<le> epochs \<Longrightarrow>
     steps_before trainloader e = e * batches_per_epoch"
proof (induction e)
  case 0
  then show ?case by (simp add: steps_before_def)
next
  case (Suc e)
  then have "length (trainloader e) = batches_per_epoch"
    by (simp add: notebook_loader_def list_all_iff)
  with Suc show ?case by (simp add: steps_before_Suc)
qed

lemma batches_per_epoch_938: "batches_per_epoch = 938"
  by (simp add: batches_per_epoch_def mnist_train_size_def batch_size_def)

lemma length_batch_losses: "length (batch_losses fw s bs) = length bs"
  by (induction bs arbitrary: s) simp_all

lemma batch_losses_positive:
  "(\<And>out y. 0 < item fw (criterion fw out y)) \<Longrightarrow> x \<in> set (batch_losses fw s bs) \<Longrightarrow> 0 < x"
  by (induction bs arbitrary: s) (auto simp: loss_of_def)

lemma sum_list_positive:
  fixes xs :: "real list"
  shows "xs \<noteq> [] \<Longrightarrow> (\<And>x. x \<in> set xs \<Longrightarrow> 0 < x) \<Longrightarrow> 0 < sum_list xs"
proof (induction xs)
  case Nil
  then show ?case by simp
next
  case (Cons x xs)
  show ?case
  proof (cases "xs = []")
    case True
    with Cons.prems show ?thesis by simp
  next
    case False
    then have "0 < sum_list xs" using Cons by simp
    moreover have "0 < x" using Cons.prems by simp
    ultimately show ?thesis by simp
  qed
qed

lemma batch_losses_unit_framework:
  "batch_losses unit_framework s bs = replicate (length bs) 1"
  by (induction bs arbitrary: s) (simp_all add: unit_framework_def)

lemma length_loader_of: "length (loader_of n e) = n"
  by (simp add: loader_of_def)

lemma sum_list_take_ones: "sum_list (take k (replicate n (1::real))) = real (min k n)"
  by (simp add: sum_list_replicate)

section \<open>The claims about the checkpoint cells\<close>

text \<open>
  C1, as stated, fails. For every model, saving a checkpoint and then calling
  \<^verbatim>\<open>load_checkpoint\<close> on the file should return a model of the same architecture with the
  saved parameter values. A model with input size 3 and output size 2 is saved with the
  literal sizes 784 and 10, so the model constructed on loading has other shapes and the
  restore raises: no model is returned.
\<close>

theorem round_trip_fails_for_other_sizes:
  "fst (load_checkpoint fresh_init ''checkpoint.pth''
         (save_checkpoint_cell (Network trained_init 3 2 [4]) empty_world)) =
     Inl (RuntimeError
       [SizeMismatch ''hidden_layers.0.weight'' [4, 3] [4, 784],
        SizeMismatch ''output.weight'' [2, 4] [10, 4],
        SizeMismatch ''output.bias'' [2] [10]])"
  by code_simp

text \<open>
  C1, amended. For every model with input size 784 and output size 10 (a \<^verbatim>\<open>Network\<close> of
  these sizes with any hidden widths \<open>hs\<close> and any parameter numbers \<open>init\<close>), in every
  world, saving a checkpoint and then calling \<^verbatim>\<open>load_checkpoint\<close> on the file returns that
  model: the same architecture and the saved parameter values, whatever numbers \<open>init'\<close>
  the freshly constructed model started with.
\<close>

theorem checkpoint_round_trip:
  "fst (load_checkpoint init' ''checkpoint.pth''
         (save_checkpoint_cell (Network init 784 10 hs) w)) = Inr (Network init 784 10 hs)"
  by (simp add: load_saved_checkpoint hidden_layers_Network fst_call_load_state_dict
      load_state_dict_Network)

text \<open>
  C2, as stated, fails. For every file that holds a checkpoint record, \<^verbatim>\<open>load_checkpoint\<close>
  should return the model. The file that the save cell writes for a model with input size
  3 and output size 2 holds a checkpoint record with all four fields, and
  \<^verbatim>\<open>load_checkpoint\<close> on it returns no model: the restore raises.
\<close>

theorem checkpoint_record_without_model:
  "files odd_world ''checkpoint.pth'' =
     Some [(''input_size'', IntV 784), (''output_size'', IntV 10),
           (''hidden_layers'', IntListV [4]),
           (''state_dict'', StateDictV (state_dict odd_model))] \<and>
   fst (load_checkpoint fresh_init ''checkpoint.pth'' odd_world) =
     Inl (RuntimeError
       [SizeMismatch ''hidden_layers.0.weight'' [4, 3] [4, 784],
        SizeMismatch ''output.weight'' [2, 4] [10, 4],
        SizeMismatch ''output.bias'' [2] [10]])"
proof
  show "files odd_world ''checkpoint.pth'' =
     Some [(''input_size'', IntV 784), (''output_size'', IntV 10),
           (''hidden_layers'', IntListV [4]),
           (''state_dict'', StateDictV (state_dict odd_model))]"
    by (simp add: odd_world_def saved_checkpoint_file)
      (simp add: odd_model_def hidden_layers_Network)
  show "fst (load_checkpoint fresh_init ''checkpoint.pth'' odd_world) =
     Inl (RuntimeError
       [SizeMismatch ''hidden_layers.0.weight'' [4, 3] [4, 784],
        SizeMismatch ''output.weight'' [2, 4] [10, 4],
        SizeMismatch ''output.bias'' [2] [10]])"
    by code_simp
qed

text \<open>
  C2, amended. When the file at \<open>filepath\<close> holds a checkpoint record (input size \<open>i\<close>,
  output size \<open>n\<close>, hidden widths \<open>hs\<close>, parameter mapping \<open>sd\<close>), \<^verbatim>\<open>load_checkpoint\<close> makes
  exactly three calls, in this order: it loads the file, it constructs a \<^verbatim>\<open>Network\<close> from
  the three configuration values of the record, and it restores the record's mapping into
  that freshly constructed model. Its result is the result of that restore: it returns the
  restored model when the restore succeeds, and raises the error of the restore otherwise.
\<close>

theorem load_checkpoint_constructs_then_restores:
  assumes "files w filepath = Some d"
    and "map_of d ''input_size'' = Some (IntV i)"
    and "map_of d ''output_size'' = Some (IntV n)"
    and "map_of d ''hidden_layers'' = Some (IntListV hs)"
    and "map_of d ''state_dict'' = Some (StateDictV sd)"
  shows "fst (load_checkpoint init filepath w) = load_state_dict (Network init i n hs) sd \<and>
     trace (snd (load_checkpoint init filepath w)) =
       trace w @ [EvLoad filepath,
                  EvNetwork (IntV i) (IntV n) (IntListV hs),
                  EvLoadStateDict (Network init i n hs) (StateDictV sd)]"
  by (simp add: load_checkpoint_record [OF assms] fst_call_load_state_dict
      trace_call_load_state_dict)

theorem load_checkpoint_constructs_then_restores_witness:
  "files tiny_world ''checkpoint.pth'' = Some tiny_checkpoint \<and>
   map_of tiny_checkpoint ''input_size'' = Some (IntV 784) \<and>
   map_of tiny_checkpoint ''output_size'' = Some (IntV 10) \<and>
   map_of tiny_checkpoint ''hidden_layers'' = Some (IntListV [4]) \<and>
   map_of tiny_checkpoint ''state_dict'' = Some (StateDictV (state_dict tiny_model)) \<and>
   fst (load_checkpoint fresh_init ''checkpoint.pth'' tiny_world) =
     load_state_dict (Network fresh_init 784 10 [4]) (state_dict tiny_model) \<and>
   fst (load_checkpoint fresh_init ''checkpoint.pth'' tiny_world) = Inr tiny_model \<and>
   trace (snd (load_checkpoint fresh_init ''checkpoint.pth'' tiny_world)) =
     trace tiny_world @ [EvLoad ''checkpoint.pth'',
                EvNetwork (IntV 784) (IntV 10) (IntListV [4]),
                EvLoadStateDict (Network fresh_init 784 10 [4]) (StateDictV (state_dict tiny_model))]"
proof -
  have f: "files tiny_world ''checkpoint.pth'' = Some tiny_checkpoint"
    by (simp add: tiny_world_def tiny_checkpoint_def save_checkpoint_cell_def torch_save_def
        split: prod.splits)
  have a: "map_of tiny_checkpoint ''input_size'' = Some (IntV 784)"
    and b: "map_of tiny_checkpoint ''output_size'' = Some (IntV 10)"
    and s: "map_of tiny_checkpoint ''state_dict'' = Some (StateDictV (state_dict tiny_model))"
    by (simp_all add: tiny_checkpoint_def make_checkpoint_def call_state_dict_def)
  have c: "map_of tiny_checkpoint ''hidden_layers'' = Some (IntListV [4])"
    by (simp add: tiny_checkpoint_def make_checkpoint_def call_state_dict_def tiny_model_def
        hidden_layers_Network)
  have r: "load_state_dict (Network fresh_init 784 10 [4]) (state_dict tiny_model) =
      Inr tiny_model"
    by (simp add: tiny_model_def load_state_dict_Network)
  note t = load_checkpoint_constructs_then_restores [OF f a b c s, of fresh_init]
  from t r have "fst (load_checkpoint fresh_init ''checkpoint.pth'' tiny_world) = Inr tiny_model"
    by simp
  with t f a b c s show ?thesis by blast
qed

text \<open>
  C3. The record that the save cell writes to \<^verbatim>\<open>checkpoint.pth\<close> is a dictionary with exactly
  the four keys \<^verbatim>\<open>input_size\<close>, \<^verbatim>\<open>output_size\<close>, \<^verbatim>\<open>hidden_layers\<close> and \<^verbatim>\<open>state_dict\<close>, in this
  order; its \<^verbatim>\<open>hidden_layers\<close> is the list of the \<^verbatim>\<open>out_features\<close> of the model's hidden layers,
  in layer order; its \<^verbatim>\<open>state_dict\<close> is the mapping that the framework's \<^verbatim>\<open>state_dict()\<close>
  returned for the model, the only framework call made before the save.
\<close>

theorem checkpoint_record_four_fields:
  "\<exists>d. files (save_checkpoint_cell model w) ''checkpoint.pth'' = Some d \<and>
       map fst d = [''input_size'', ''output_size'', ''hidden_layers'', ''state_dict''] \<and>
       (\<exists>i. map_of d ''input_size'' = Some (IntV i)) \<and>
       (\<exists>n. map_of d ''output_size'' = Some (IntV n)) \<and>
       map_of d ''hidden_layers'' = Some (IntListV (map out_features (hidden_layers model))) \<and>
       map_of d ''state_dict'' = Some (StateDictV (state_dict model)) \<and>
       trace (save_checkpoint_cell model w) =
         trace w @ [EvStateDict model, EvSave d ''checkpoint.pth'']"
  by (simp add: save_checkpoint_cell_def make_checkpoint_def call_state_dict_def torch_save_def)

text \<open>
  C4. Restoring a checkpoint fails in one way only. When the file holds a checkpoint
  record, the result of \<^verbatim>\<open>load_checkpoint\<close> is the result of the framework's restore into the
  constructed model, unchanged, and the restore is the last call made: nothing handles,
  retries or recovers it. So every error of \<^verbatim>\<open>load_checkpoint\<close> on such a file is the
  framework's \<^verbatim>\<open>RuntimeError\<close>, raised because the saved and the constructed parameters do not
  have the same shapes, and then no model is returned. On a file that the save cell wrote,
  for any model, every message of that error is a size mismatch.
\<close>

theorem restore_error_is_the_only_failure:
  "(files w filepath = Some d \<and>
    map_of d ''input_size'' = Some (IntV i) \<and>
    map_of d ''output_size'' = Some (IntV n) \<and>
    map_of d ''hidden_layers'' = Some (IntListV hs) \<and>
    map_of d ''state_dict'' = Some (StateDictV sd) \<longrightarrow>
      fst (load_checkpoint init filepath w) = load_state_dict (Network init i n hs) sd \<and>
      (\<forall>err. fst (load_checkpoint init filepath w) = Inl err \<longrightarrow>
         (\<exists>msgs. err = RuntimeError msgs \<and> msgs \<noteq> []) \<and>
         \<not> same_shapes sd (state_dict (Network init i n hs))) \<and>
      trace (snd (load_checkpoint init filepath w)) =
        trace w @ [EvLoad filepath,
                   EvNetwork (IntV i) (IntV n) (IntListV hs),
                   EvLoadStateDict (Network init i n hs) (StateDictV sd)]) \<and>
   (fst (load_checkpoint init' ''checkpoint.pth'' (save_checkpoint_cell model w')) = Inl err' \<longrightarrow>
      (\<exists>msgs. err' = RuntimeError msgs \<and> msgs \<noteq> [] \<and> list_all is_size_mismatch msgs) \<and>
      load_state_dict (Network init' 784 10 (map out_features (hidden_layers model)))
        (state_dict model) = Inl err')"
proof (intro conjI impI)
  assume h: "files w filepath = Some d \<and>
    map_of d ''input_size'' = Some (IntV i) \<and>
    map_of d ''output_size'' = Some (IntV n) \<and>
    map_of d ''hidden_layers'' = Some (IntListV hs) \<and>
    map_of d ''state_dict'' = Some (StateDictV sd)"
  then have "files w filepath = Some d"
    and "map_of d ''input_size'' = Some (IntV i)"
    and "map_of d ''output_size'' = Some (IntV n)"
    and "map_of d ''hidden_layers'' = Some (IntListV hs)"
    and "map_of d ''state_dict'' = Some (StateDictV sd)"
    by simp_all
  then have eq: "load_checkpoint init filepath w =
      call_load_state_dict (Network init i n hs) (StateDictV sd)
        (w\<lparr>trace := trace w @ [EvLoad filepath,
              EvNetwork (IntV i) (IntV n) (IntListV hs)]\<rparr>)"
    by (rule load_checkpoint_record)
  show r: "fst (load_checkpoint init filepath w) = load_state_dict (Network init i n hs) sd"
    by (simp add: eq fst_call_load_state_dict)
  show "trace (snd (load_checkpoint init filepath w)) =
        trace w @ [EvLoad filepath,
                   EvNetwork (IntV i) (IntV n) (IntListV hs),
                   EvLoadStateDict (Network init i n hs) (StateDictV sd)]"
    by (simp add: eq trace_call_load_state_dict)
  show "\<forall>err. fst (load_checkpoint init filepath w) = Inl err \<longrightarrow>
         (\<exists>msgs. err = RuntimeError msgs \<and> msgs \<noteq> []) \<and>
         \<not> same_shapes sd (state_dict (Network init i n hs))"
  proof (intro allI impI conjI)
    fix err
    assume "fst (load_checkpoint init filepath w) = Inl err"
    with r have e: "load_state_dict (Network init i n hs) sd = Inl err" by simp
    then show "\<exists>msgs. err = RuntimeError msgs \<and> msgs \<noteq> []"
      by (rule load_state_dict_cases)
    from e have "\<not> (\<exists>m'. load_state_dict (Network init i n hs) sd = Inr m')" by simp
    then show "\<not> same_shapes sd (state_dict (Network init i n hs))"
      by (simp add: load_state_dict_ok_iff)
  qed
next
  let ?own = "Network init' 784 10 (map out_features (hidden_layers model))"
  assume "fst (load_checkpoint init' ''checkpoint.pth'' (save_checkpoint_cell model w')) = Inl err'"
  then show e: "load_state_dict ?own (state_dict model) = Inl err'"
    by (simp add: load_saved_checkpoint fst_call_load_state_dict)
  then have "err' = RuntimeError (load_msgs (state_dict ?own) (state_dict model)) \<and>
      load_msgs (state_dict ?own) (state_dict model) \<noteq> []"
    by (auto simp: load_state_dict_def Let_def split: if_splits)
  then show "\<exists>msgs. err' = RuntimeError msgs \<and> msgs \<noteq> [] \<and> list_all is_size_mismatch msgs"
    using saved_checkpoint_only_size_mismatch [of init' model] by blast
qed

theorem restore_error_is_the_only_failure_witness:
  "fst (load_checkpoint fresh_init ''checkpoint.pth'' odd_world) =
     Inl (RuntimeError
       [SizeMismatch ''hidden_layers.0.weight'' [4, 3] [4, 784],
        SizeMismatch ''output.weight'' [2, 4] [10, 4],
        SizeMismatch ''output.bias'' [2] [10]]) \<and>
   list_all is_size_mismatch
       [SizeMismatch ''hidden_layers.0.weight'' [4, 3] [4, 784],
        SizeMismatch ''output.weight'' [2, 4] [10, 4],
        SizeMismatch ''output.bias'' [2] [10]] \<and>
   \<not> same_shapes (state_dict odd_model) (state_dict (Network fresh_init 784 10 [4]))"
proof -
  let ?d = "fst (make_checkpoint odd_model empty_world)"
  let ?msgs = "[SizeMismatch ''hidden_layers.0.weight'' [4, 3] [4, 784],
        SizeMismatch ''output.weight'' [2, 4] [10, 4],
        SizeMismatch ''output.bias'' [2] [10]]"
  have f: "files odd_world ''checkpoint.pth'' = Some ?d"
    by (simp add: odd_world_def save_checkpoint_cell_def torch_save_def split: prod.splits)
  have a: "map_of ?d ''input_size'' = Some (IntV 784)"
    and b: "map_of ?d ''output_size'' = Some (IntV 10)"
    and s: "map_of ?d ''state_dict'' = Some (StateDictV (state_dict odd_model))"
    by (simp_all add: make_checkpoint_def call_state_dict_def)
  have c: "map_of ?d ''hidden_layers'' = Some (IntListV [4])"
    by (simp add: make_checkpoint_def call_state_dict_def odd_model_def hidden_layers_Network)
  have e: "load_state_dict (Network fresh_init 784 10 [4]) (state_dict odd_model) =
     Inl (RuntimeError ?msgs)"
    by code_simp
  have h: "files odd_world ''checkpoint.pth'' = Some ?d \<and>
    map_of ?d ''input_size'' = Some (IntV 784) \<and>
    map_of ?d ''output_size'' = Some (IntV 10) \<and>
    map_of ?d ''hidden_layers'' = Some (IntListV [4]) \<and>
    map_of ?d ''state_dict'' = Some (StateDictV (state_dict odd_model))"
    by (intro conjI f a b c s)
  note t = restore_error_is_the_only_failure
    [where w = odd_world and filepath = "''checkpoint.pth''" and d = "?d" and i = 784 and n = 10
      and hs = "[4]" and sd = "state_dict odd_model" and init = fresh_init
      and init' = fresh_init and model = odd_model and w' = empty_world
      and err' = "RuntimeError ?msgs"]
  note ta = t [THEN conjunct1, THEN mp, OF h]
  from ta [THEN conjunct1] e
  have r: "fst (load_checkpoint fresh_init ''checkpoint.pth'' odd_world) =
      Inl (RuntimeError ?msgs)"
    by (rule trans)
  from ta [THEN conjunct2, THEN conjunct1, THEN spec, THEN mp, OF r]
  have n: "\<not> same_shapes (state_dict odd_model) (state_dict (Network fresh_init 784 10 [4]))"
    by (rule conjunct2)
  have m: "list_all is_size_mismatch ?msgs"
    by (simp add: is_size_mismatch_def)
  from r m n show ?thesis by (intro conjI)
qed

text \<open>
  C5. Restoring a saved mapping into a model succeeds exactly when the saved and the
  constructed parameters have the same shapes, name by name (the spec's exact structural
  equality: the same names, and equal shapes under each name). Hence, when the model
  constructed from the configuration values of a checkpoint record has the shapes of the
  record's mapping, \<^verbatim>\<open>load_checkpoint\<close> returns a model: the error of the restore is not
  reached.
\<close>

theorem restore_succeeds_iff_shapes_agree:
  "((\<exists>m'. load_state_dict m saved = Inr m') \<longleftrightarrow> same_shapes saved (state_dict m)) \<and>
   (files w filepath = Some d \<and>
    map_of d ''input_size'' = Some (IntV i) \<and>
    map_of d ''output_size'' = Some (IntV n) \<and>
    map_of d ''hidden_layers'' = Some (IntListV hs) \<and>
    map_of d ''state_dict'' = Some (StateDictV sd) \<and>
    same_shapes sd (state_dict (Network init i n hs)) \<longrightarrow>
    (\<exists>m'. fst (load_checkpoint init filepath w) = Inr m'))"
proof (intro conjI impI)
  show "(\<exists>m'. load_state_dict m saved = Inr m') \<longleftrightarrow> same_shapes saved (state_dict m)"
    by (rule load_state_dict_ok_iff)
next
  assume h: "files w filepath = Some d \<and>
    map_of d ''input_size'' = Some (IntV i) \<and>
    map_of d ''output_size'' = Some (IntV n) \<and>
    map_of d ''hidden_layers'' = Some (IntListV hs) \<and>
    map_of d ''state_dict'' = Some (StateDictV sd) \<and>
    same_shapes sd (state_dict (Network init i n hs))"
  then have "\<exists>m'. load_state_dict (Network init i n hs) sd = Inr m'"
    by (simp add: load_state_dict_ok_iff)
  moreover from h have "fst (load_checkpoint init filepath w) =
      load_state_dict (Network init i n hs) sd"
    by (simp add: load_checkpoint_record [of w filepath d i n hs] fst_call_load_state_dict)
  ultimately show "\<exists>m'. fst (load_checkpoint init filepath w) = Inr m'" by simp
qed

theorem restore_succeeds_iff_shapes_agree_witness:
  "same_shapes (state_dict tiny_model) (state_dict (Network fresh_init 784 10 [4])) \<and>
   (\<exists>m'. load_state_dict (Network fresh_init 784 10 [4]) (state_dict tiny_model) = Inr m') \<and>
   (\<exists>m'. fst (load_checkpoint fresh_init ''checkpoint.pth'' tiny_world) = Inr m')"
proof -
  have f: "files tiny_world ''checkpoint.pth'' = Some tiny_checkpoint"
    by (simp add: tiny_world_def tiny_checkpoint_def save_checkpoint_cell_def torch_save_def
        split: prod.splits)
  have a: "map_of tiny_checkpoint ''input_size'' = Some (IntV 784)"
    and b: "map_of tiny_checkpoint ''output_size'' = Some (IntV 10)"
    and s: "map_of tiny_checkpoint ''state_dict'' = Some (StateDictV (state_dict tiny_model))"
    by (simp_all add: tiny_checkpoint_def make_checkpoint_def call_state_dict_def)
  have c: "map_of tiny_checkpoint ''hidden_layers'' = Some (IntListV [4])"
    by (simp add: tiny_checkpoint_def make_checkpoint_def call_state_dict_def tiny_model_def
        hidden_layers_Network)
  have e: "same_shapes (state_dict tiny_model) (state_dict (Network fresh_init 784 10 [4]))"
    by code_simp
  note t = restore_succeeds_iff_shapes_agree
    [of "Network fresh_init 784 10 [4]" "state_dict tiny_model" tiny_world "''checkpoint.pth''"
      tiny_checkpoint 784 10 "[4]" "state_dict tiny_model" fresh_init]
  from t e f a b c s show ?thesis by blast
qed



text \<open>
  C8. The save cell writes the literals 784 and 10 as input and output size of every
  model, and the hidden widths of the model itself. So for a model whose input size is not
  784 or whose output size is not 10, \<^verbatim>\<open>load_checkpoint\<close> on the saved file does not return
  a model: the restore raises the framework's error, with a size mismatch among its
  messages.
\<close>

theorem literal_sizes_break_other_models:
  assumes "input_size \<noteq> 784 \<or> output_size \<noteq> 10"
  shows "\<exists>d msgs k s s'.
     files (save_checkpoint_cell (Network init input_size output_size hs) w) ''checkpoint.pth'' = Some d \<and>
     map_of d ''input_size'' = Some (IntV 784) \<and>
     map_of d ''output_size'' = Some (IntV 10) \<and>
     map_of d ''hidden_layers'' = Some (IntListV hs) \<and>
     fst (load_checkpoint init' ''checkpoint.pth''
            (save_checkpoint_cell (Network init input_size output_size hs) w)) =
       Inl (RuntimeError msgs) \<and>
     SizeMismatch k s s' \<in> set msgs"
proof -
  let ?m = "Network init input_size output_size hs"
  let ?msgs = "load_msgs (state_dict (Network init' 784 10 hs)) (state_dict ?m)"
  obtain k s s' where mem: "SizeMismatch k s s' \<in> set ?msgs"
    using literal_sizes_mismatch_msgs [OF assms] by blast
  then have "?msgs \<noteq> []" by auto
  then have "fst (load_checkpoint init' ''checkpoint.pth'' (save_checkpoint_cell ?m w)) =
      Inl (RuntimeError ?msgs)"
    by (simp add: load_saved_checkpoint hidden_layers_Network fst_call_load_state_dict
        load_state_dict_Inl)
  with mem show ?thesis
    by (simp add: saved_checkpoint_file hidden_layers_Network) blast
qed

theorem literal_sizes_break_other_models_witness:
  "\<exists>d msgs k s s'.
     files (save_checkpoint_cell (Network trained_init 3 2 [4]) empty_world) ''checkpoint.pth'' = Some d \<and>
     map_of d ''input_size'' = Some (IntV 784) \<and>
     map_of d ''output_size'' = Some (IntV 10) \<and>
     map_of d ''hidden_layers'' = Some (IntListV [4]) \<and>
     fst (load_checkpoint fresh_init ''checkpoint.pth''
            (save_checkpoint_cell (Network trained_init 3 2 [4]) empty_world)) =
       Inl (RuntimeError msgs) \<and>
     SizeMismatch k s s' \<in> set msgs"
proof -
  have h: "(3::int) \<noteq> 784 \<or> (2::int) \<noteq> 10" by simp
  show ?thesis
    by (rule literal_sizes_break_other_models [OF h, of trained_init "[4]" empty_world fresh_init])
qed





section \<open>The claims about the training loop\<close>

text \<open>
  C6. Every iteration of the training loop makes its framework calls in one fixed order:
  the images are resized to the batch size by 784, the gradients are cleared, the forward
  pass is run, the loss is computed, the backward pass is run, and then the optimizer
  steps. The values follow the same order: the forward pass sees the cleared state and
  the resized images, the loss is computed from its output and the labels, the backward
  pass gets that loss and the cleared state, and the optimizer steps on its result. Every
  pass of the inner loop is such an iteration. So over a list of batches, and over the
  whole cell, the call log is the concatenation of these six calls over all batches of
  all epochs, and the framework state is the result of applying the iterations one after
  the other. The cell with the single training step makes the same calls in the same
  order, with the same flow of values, on 64 images.
\<close>

theorem training_calls_in_order:
  "iteration_calls fw (images, labels) =
     [Resize (size0 fw images) 784, ZeroGrad, Forward, Criterion, Backward, Step] \<and>
   fstate_after fw s0 (images, labels) =
     step fw (backward fw
       (criterion fw
          (forward fw (zero_grad fw s0) (resize fw images (size0 fw images) 784)) labels)
       (zero_grad fw s0)) \<and>
   calls (train_iteration fw e (images, labels) st) =
     calls st @ [Resize (size0 fw images) 784, ZeroGrad, Forward, Criterion, Backward, Step] \<and>
   fstate (train_iteration fw e (images, labels) st) =
     step fw (backward fw
       (criterion fw
          (forward fw (zero_grad fw (fstate st)) (resize fw images (size0 fw images) 784)) labels)
       (zero_grad fw (fstate st))) \<and>
   train_batches fw e (batch # rest) st =
     train_batches fw e rest (train_iteration fw e batch st) \<and>
   calls (train_batches fw e bs st) = calls st @ concat (map (iteration_calls fw) bs) \<and>
   fstate (train_batches fw e bs st) = foldl (fstate_after fw) (fstate st) bs \<and>
   calls (training_cell fw trainloader s) =
     concat (map (iteration_calls fw) (concat (map trainloader [0..<epochs]))) \<and>
   fstate (training_cell fw trainloader s) =
     foldl (fstate_after fw) s (concat (map trainloader [0..<epochs])) \<and>
   calls (single_step_cell fw (images, labels) st) =
     calls st @ [Resize 64 784, ZeroGrad, Forward, Criterion, Backward, Step] \<and>
   fstate (single_step_cell fw (images, labels) st) =
     step fw (backward fw
       (criterion fw (forward fw (zero_grad fw (fstate st)) (resize fw images 64 784)) labels)
       (zero_grad fw (fstate st)))"
proof (intro conjI)
  show "iteration_calls fw (images, labels) =
     [Resize (size0 fw images) 784, ZeroGrad, Forward, Criterion, Backward, Step]"
    by (simp add: iteration_calls_def)
  show "fstate_after fw s0 (images, labels) =
     step fw (backward fw
       (criterion fw
          (forward fw (zero_grad fw s0) (resize fw images (size0 fw images) 784)) labels)
       (zero_grad fw s0))"
    by (simp add: fstate_after_def loss_of_def)
  show "calls (train_iteration fw e (images, labels) st) =
     calls st @ [Resize (size0 fw images) 784, ZeroGrad, Forward, Criterion, Backward, Step]"
    by (simp add: calls_train_iteration iteration_calls_def)
  show "fstate (train_iteration fw e (images, labels) st) =
     step fw (backward fw
       (criterion fw
          (forward fw (zero_grad fw (fstate st)) (resize fw images (size0 fw images) 784)) labels)
       (zero_grad fw (fstate st)))"
    by (simp add: fstate_train_iteration fstate_after_def loss_of_def)
  show "train_batches fw e (batch # rest) st =
     train_batches fw e rest (train_iteration fw e batch st)"
    by simp
  show "calls (train_batches fw e bs st) = calls st @ concat (map (iteration_calls fw) bs)"
    by (rule calls_train_batches)
  show "fstate (train_batches fw e bs st) = foldl (fstate_after fw) (fstate st) bs"
    by (rule fstate_train_batches)
  show "calls (training_cell fw trainloader s) =
     concat (map (iteration_calls fw) (concat (map trainloader [0..<epochs])))"
    by (simp add: training_cell_def training_upto_def calls_train_epochs start_state_def)
  show "fstate (training_cell fw trainloader s) =
     foldl (fstate_after fw) s (concat (map trainloader [0..<epochs]))"
    by (simp add: training_cell_def training_upto_def fstate_train_epochs start_state_def)
  show "calls (single_step_cell fw (images, labels) st) =
     calls st @ [Resize 64 784, ZeroGrad, Forward, Criterion, Backward, Step]"
    by (simp add: single_step_cell_def logged_def Let_def)
  show "fstate (single_step_cell fw (images, labels) st) =
     step fw (backward fw
       (criterion fw (forward fw (zero_grad fw (fstate st)) (resize fw images 64 784)) labels)
       (zero_grad fw (fstate st)))"
    by (simp add: single_step_cell_def logged_def Let_def)
qed

text \<open>
  C9. Every printed value is \<^verbatim>\<open>running_loss\<close> divided by \<^verbatim>\<open>print_every\<close>, and
  \<^verbatim>\<open>running_loss\<close> is reset at the start of every epoch while \<^verbatim>\<open>steps\<close> is not: on the
  notebook's loader, epoch \<open>e\<close> of the run starts at step \<open>e\<close> times 938. So in every epoch
  after the first, the first value printed is the sum of the losses of the first \<open>k\<close>
  batches of the epoch divided by \<^verbatim>\<open>print_every\<close>, where \<open>k\<close> is the number of steps to the
  next multiple of \<^verbatim>\<open>print_every\<close> and is strictly below \<^verbatim>\<open>print_every\<close> (22 in the second
  epoch and 4 in the third); with the positive losses of the notebook's criterion, this
  value is below the mean of the \<open>k\<close> losses of that window.
\<close>

theorem first_print_of_later_epochs:
  assumes "notebook_loader trainloader"
    and "\<And>out y. 0 < item fw (criterion fw out y)"
    and "0 < e" and "e < epochs"
  shows "\<exists>k window.
     steps (training_upto fw trainloader s e) = e * 938 \<and>
     k = print_every - (e * 938) mod print_every \<and>
     k = (if e = 1 then 22 else 4) \<and> 0 < k \<and> k < print_every \<and>
     window = take k
       (batch_losses fw (fstate (training_upto fw trainloader s e)) (trainloader e)) \<and>
     length window = k \<and>
     first_printed (e + 1) (printed (training_cell fw trainloader s)) =
       Some (sum_list window / real print_every) \<and>
     sum_list window / real print_every < sum_list window / real k"
proof -
  define k where "k = print_every - (e * 938) mod print_every"
  define window where "window = take k
       (batch_losses fw (fstate (training_upto fw trainloader s e)) (trainloader e))"
  from assms(3,4) have e: "e = 1 \<or> e = 2" by (auto simp: epochs_def)
  have sb: "steps_before trainloader e = e * 938"
    using steps_before_notebook_loader [OF assms(1), of e] assms(4)
    by (simp add: batches_per_epoch_938)
  have len: "length (trainloader e) = 938"
    using assms(1,4) by (simp add: notebook_loader_def list_all_iff batches_per_epoch_938)
  from e have kv: "k = (if e = 1 then 22 else 4)"
    by (auto simp: k_def print_every_def)
  then have kpos: "0 < k" and klt: "k < print_every" and kle: "k \<le> length (trainloader e)"
    using len by (auto simp: print_every_def)
  from e have r: "steps_before trainloader e mod print_every \<noteq> 0"
    by (auto simp: sb print_every_def)
  have "print_every - steps_before trainloader e mod print_every \<le> length (trainloader e)"
    using kle by (simp add: k_def sb)
  from first_print_of_epoch [OF assms(4) refl r this, of fw s]
  have p: "first_printed (e + 1) (printed (training_cell fw trainloader s)) =
       Some (sum_list window / real print_every)"
    by (simp add: window_def k_def sb)
  have wl: "length window = k"
    using kle by (simp add: window_def length_batch_losses)
  have "0 < sum_list window"
  proof (rule sum_list_positive)
    from wl kpos show "window \<noteq> []" by auto
  next
    fix x assume "x \<in> set window"
    then have "x \<in> set (batch_losses fw (fstate (training_upto fw trainloader s e)) (trainloader e))"
      unfolding window_def by (rule in_set_takeD)
    then show "0 < x" by (rule batch_losses_positive [OF assms(2)])
  qed
  then have u: "sum_list window / real print_every < sum_list window / real k"
    using kpos klt by (simp add: frac_less2)
  have "steps (training_upto fw trainloader s e) = e * 938"
    by (simp add: steps_training_upto sb)
  with kv kpos klt wl p u have "steps (training_upto fw trainloader s e) = e * 938 \<and>
     k = print_every - (e * 938) mod print_every \<and>
     k = (if e = 1 then 22 else 4) \<and> 0 < k \<and> k < print_every \<and>
     window = take k
       (batch_losses fw (fstate (training_upto fw trainloader s e)) (trainloader e)) \<and>
     length window = k \<and>
     first_printed (e + 1) (printed (training_cell fw trainloader s)) =
       Some (sum_list window / real print_every) \<and>
     sum_list window / real print_every < sum_list window / real k"
    using k_def window_def by (intro conjI)
  then show ?thesis by (intro exI)
qed

theorem first_print_of_later_epochs_witness:
  "first_printed 2 (printed (training_cell unit_framework (loader_of 938) ())) = Some (22 / 40) \<and>
   (22::real) / 40 < 22 / 22"
proof -
  have a: "notebook_loader (loader_of 938)"
    by (simp add: notebook_loader_def list_all_iff length_loader_of batches_per_epoch_938)
  have b: "\<And>out y. 0 < item unit_framework (criterion unit_framework out y)"
    by (simp add: unit_framework_def)
  have c: "0 < (1::nat)" and d: "(1::nat) < epochs"
    by (simp_all add: epochs_def)
  from first_print_of_later_epochs [OF a b c d, where s = "()"]
  obtain k window where k: "k = (if (1::nat) = 1 then 22 else 4)"
    and w: "window = take k
       (batch_losses unit_framework (fstate (training_upto unit_framework (loader_of 938) () 1))
          (loader_of 938 1))"
    and p: "first_printed (1 + 1) (printed (training_cell unit_framework (loader_of 938) ())) =
       Some (sum_list window / real print_every)"
    and u: "sum_list window / real print_every < sum_list window / real k"
    by blast
  from k have k22: "k = 22" by simp
  have "sum_list window = real (min 22 938)"
    unfolding w k22 batch_losses_unit_framework length_loader_of by (rule sum_list_take_ones)
  then have t: "sum_list window = 22" by simp
  have two: "(1::nat) + 1 = 2" by simp
  from p have "first_printed 2 (printed (training_cell unit_framework (loader_of 938) ())) =
      Some (22 / real print_every)"
    unfolding two t .
  moreover from u have "(22::real) / real print_every < 22 / real (22::nat)"
    unfolding t k22 .
  ultimately show ?thesis by (simp add: print_every_def)
qed

end
